theory Spec2Isabelle
  imports Main "HOL-Library.Sublist"
begin

section \<open>Python values and the operations the migration script applies to them\<close>

text \<open>
  The script \<^verbatim>\<open>mssp_migrate_to_cc.py\<close> works on the values that \<^verbatim>\<open>json.load\<close> and
  \<^verbatim>\<open>response.json()\<close> produce: dictionaries with string keys, lists, strings, numbers,
  booleans and \<^verbatim>\<open>None\<close>. A dictionary is an association list read with \<open>map_of\<close>;
  the order of the pairs is the insertion order that \<^verbatim>\<open>json.dump\<close> writes. One \<open>char\<close>
  stands for one character of a Python string. Numbers are integers: the script never
  computes with a number, it only tests one for truth or fails on it. The keys of a
  dictionary are distinct; no function below builds a dictionary with a repeated key.
  Writing to the log is left out: the \<^verbatim>\<open>logging\<close> module catches what its handlers
  raise, so no value, no call and no exception of the script depends on it. Printing to
  the standard output is a call that leaves the script and may raise.
\<close>

datatype json =
    JNull
  | JBool bool
  | JInt int
  | JStr string
  | JArr "json list"
  | JObj "(string \<times> json) list"

text \<open>
  The exceptions that the script's own statements and its collaborators can raise;
  \<^verbatim>\<open>exit(n)\<close> and \<^verbatim>\<open>parser.error\<close> raise \<open>SystemExit\<close>.
\<close>

datatype error =
    AttributeError
  | TypeError
  | KeyError
  | IndexError
  | RequestException
  | JSONDecodeError
  | OSError
  | UnicodeEncodeError
  | SystemExit int
  | OtherError string

text \<open>Sequencing of statements that may raise: the first exception ends the evaluation.\<close>

definition ebind :: "error + 'a \<Rightarrow> ('a \<Rightarrow> error + 'b) \<Rightarrow> error + 'b" where
  "ebind m f = (case m of Inl e \<Rightarrow> Inl e | Inr x \<Rightarrow> f x)"

text \<open>\<^verbatim>\<open>x.get(k, d)\<close>: only a dictionary has the method.\<close>

fun dict_get :: "json \<Rightarrow> string \<Rightarrow> json \<Rightarrow> error + json" where
  "dict_get (JObj kvs) k d = Inr (case map_of kvs k of Some v \<Rightarrow> v | None \<Rightarrow> d)"
| "dict_get _ k d = Inl AttributeError"

text \<open>\<^verbatim>\<open>x[k]\<close> with a string key \<open>k\<close>.\<close>

fun getitem :: "json \<Rightarrow> string \<Rightarrow> error + json" where
  "getitem (JObj kvs) k = (case map_of kvs k of Some v \<Rightarrow> Inr v | None \<Rightarrow> Inl KeyError)"
| "getitem _ k = Inl TypeError"

text \<open>The truth value of \<^verbatim>\<open>if x\<close>.\<close>

fun truthy :: "json \<Rightarrow> bool" where
  "truthy JNull = False"
| "truthy (JBool b) = b"
| "truthy (JInt n) = (n \<noteq> 0)"
| "truthy (JStr s) = (s \<noteq> [])"
| "truthy (JArr xs) = (xs \<noteq> [])"
| "truthy (JObj kvs) = (kvs \<noteq> [])"

text \<open>
  \<^verbatim>\<open>role in x\<close> for a string \<open>role\<close>: an element of a list, a key of a dictionary, a
  contiguous part of a string; anything else is not iterable.
\<close>

fun contains :: "json \<Rightarrow> string \<Rightarrow> error + bool" where
  "contains (JArr xs) r = Inr (JStr r \<in> set xs)"
| "contains (JObj kvs) r = Inr (r \<in> set (map fst kvs))"
| "contains (JStr s) r = Inr (sublist r s)"
| "contains _ r = Inl TypeError"

text \<open>\<^verbatim>\<open>for x in v\<close>: the elements of a list, the keys of a dictionary, the characters of a string.\<close>

fun iterate :: "json \<Rightarrow> error + json list" where
  "iterate (JArr xs) = Inr xs"
| "iterate (JObj kvs) = Inr (map (\<lambda>kv. JStr (fst kv)) kvs)"
| "iterate (JStr s) = Inr (map (\<lambda>c. JStr [c]) s)"
| "iterate _ = Inl TypeError"

text \<open>\<^verbatim>\<open>sep.join(x)\<close>: \<open>x\<close> must be iterable and every item a string.\<close>

fun join_strs :: "string \<Rightarrow> string list \<Rightarrow> string" where
  "join_strs sep [] = []"
| "join_strs sep [x] = x"
| "join_strs sep (x # y # ys) = x @ sep @ join_strs sep (y # ys)"

fun as_strs :: "json list \<Rightarrow> error + string list" where
  "as_strs [] = Inr []"
| "as_strs (JStr s # xs) = ebind (as_strs xs) (\<lambda>ss. Inr (s # ss))"
| "as_strs (_ # xs) = Inl TypeError"

definition join :: "string \<Rightarrow> json \<Rightarrow> error + json" where
  "join sep x = ebind (iterate x) (\<lambda>items. ebind (as_strs items) (\<lambda>ss. Inr (JStr (join_strs sep ss))))"

text \<open>
  \<^verbatim>\<open>x[0]\<close>: the first element of a list, the first character of a string; a dictionary
  with string keys has no key \<open>0\<close>.
\<close>

fun getitem0 :: "json \<Rightarrow> error + json" where
  "getitem0 (JArr []) = Inl IndexError"
| "getitem0 (JArr (x # xs)) = Inr x"
| "getitem0 (JStr []) = Inl IndexError"
| "getitem0 (JStr (c # cs)) = Inr (JStr [c])"
| "getitem0 (JObj kvs) = Inl KeyError"
| "getitem0 _ = Inl TypeError"

text \<open>\<^verbatim>\<open>a + b\<close>; a boolean counts as the integer 0 or 1.\<close>

fun add :: "json \<Rightarrow> json \<Rightarrow> error + json" where
  "add (JStr a) (JStr b) = Inr (JStr (a @ b))"
| "add (JArr a) (JArr b) = Inr (JArr (a @ b))"
| "add (JInt a) (JInt b) = Inr (JInt (a + b))"
| "add (JInt a) (JBool b) = Inr (JInt (a + of_bool b))"
| "add (JBool a) (JInt b) = Inr (JInt (of_bool a + b))"
| "add (JBool a) (JBool b) = Inr (JInt (of_bool a + of_bool b))"
| "add _ _ = Inl TypeError"

text \<open>\<^verbatim>\<open>x[:n]\<close>.\<close>

fun slice_to :: "json \<Rightarrow> nat \<Rightarrow> error + json" where
  "slice_to (JStr s) n = Inr (JStr (take n s))"
| "slice_to (JArr xs) n = Inr (JArr (take n xs))"
| "slice_to _ n = Inl TypeError"

text \<open>A loop that appends one result per element, and a comprehension with a condition.\<close>

fun map_err :: "('a \<Rightarrow> error + 'b) \<Rightarrow> 'a list \<Rightarrow> error + 'b list" where
  "map_err f [] = Inr []"
| "map_err f (x # xs) = ebind (f x) (\<lambda>y. ebind (map_err f xs) (\<lambda>ys. Inr (y # ys)))"

fun filter_err :: "('a \<Rightarrow> error + bool) \<Rightarrow> 'a list \<Rightarrow> error + 'a list" where
  "filter_err p [] = Inr []"
| "filter_err p (x # xs) =
     ebind (p x) (\<lambda>keep. ebind (filter_err p xs) (\<lambda>ys. Inr (if keep then x # ys else ys)))"

section \<open>Record filters and mappers\<close>

subsection \<open>\<^verbatim>\<open>filter_accounts_by_type\<close> and \<^verbatim>\<open>filter_users_by_role\<close>\<close>

text \<open>
  \<^verbatim>\<open>[account for account in accounts if account.get('_type') == account_type]\<close>. The wanted
  value is a string, so the comparison holds exactly for the same string.
\<close>

definition filter_accounts_by_type :: "json \<Rightarrow> string \<Rightarrow> error + json" where
  "filter_accounts_by_type accounts account_type =
     ebind (iterate accounts) (\<lambda>elems.
     ebind (filter_err (\<lambda>account.
              ebind (dict_get account ''_type'' JNull) (\<lambda>t. Inr (t = JStr account_type))) elems)
       (\<lambda>filtered_accounts. Inr (JArr filtered_accounts)))"

definition filter_users_by_role :: "json \<Rightarrow> string \<Rightarrow> error + json" where
  "filter_users_by_role users role =
     ebind (iterate users) (\<lambda>elems.
     ebind (filter_err (\<lambda>user.
              ebind (dict_get user ''role'' JNull) (\<lambda>r. Inr (r = JStr role))) elems)
       (\<lambda>filtered_users. Inr (JArr filtered_users)))"


subsection \<open>\<^verbatim>\<open>select_new_role\<close>\<close>

definition new_role_mapping :: "(string \<times> string) list" where
  "new_role_mapping =
     [(''userAdmin'', ''MSSP_PORTAL_ADMIN''),
      (''basicUser'', ''MSSP_PORTAL_USER''),
      (''dashboardUser'', ''MSSP_PORTAL_VIEWER''),
      (''userViewer'', ''MSSP_PORTAL_VIEWER'')]"

definition role_priority :: "string list" where
  "role_priority = [''userAdmin'', ''basicUser'', ''dashboardUser'', ''userViewer'']"

text \<open>
  The loop \<^verbatim>\<open>for role in role_priority\<close>: the first role found in \<open>current_roles\<close> is
  looked up in the mapping (a missing key would raise) and returned; \<^verbatim>\<open>None\<close> after the
  loop.
\<close>

fun scan_roles :: "(string \<times> string) list \<Rightarrow> string list \<Rightarrow> json \<Rightarrow> error + json" where
  "scan_roles mapping [] current_roles = Inr JNull"
| "scan_roles mapping (role # rest) current_roles =
     ebind (contains current_roles role) (\<lambda>found.
       if found then
         (case map_of mapping role of Some new \<Rightarrow> Inr (JStr new) | None \<Rightarrow> Inl KeyError)
       else scan_roles mapping rest current_roles)"

definition select_new_role :: "json \<Rightarrow> error + json" where
  "select_new_role current_roles = scan_roles new_role_mapping role_priority current_roles"

subsection \<open>\<^verbatim>\<open>build_users_info\<close> and \<^verbatim>\<open>build_assets_info\<close>\<close>

text \<open>The body of the loop of \<^verbatim>\<open>build_users_info\<close>, statement by statement.\<close>

definition user_info :: "json \<Rightarrow> error + json" where
  "user_info user =
     ebind (dict_get user ''username'' (JStr ''N/A'')) (\<lambda>username.
     ebind (dict_get user ''account'' (JObj [])) (\<lambda>account.
     ebind (dict_get account ''_oid'' (JStr ''N/A'')) (\<lambda>account_oid.
     ebind (dict_get user ''roles'' (JObj [])) (\<lambda>roles.
     ebind (dict_get roles ''currentAccount'' (JArr [])) (\<lambda>current_account_roles.
     ebind (if truthy current_account_roles then join '', '' current_account_roles
            else Inr (JStr ''None'')) (\<lambda>roles_string.
     ebind (select_new_role current_account_roles) (\<lambda>new_role.
     ebind (dict_get user ''auth_meta'' (JObj [])) (\<lambda>auth_meta.
     ebind (dict_get auth_meta ''allowed_ip_list'' (JArr [])) (\<lambda>allowed_ips.
     ebind (if truthy allowed_ips then getitem0 allowed_ips else Inr (JStr [])) (\<lambda>first_ip.
     ebind (dict_get user ''notes'' (JStr [])) (\<lambda>notes.
     ebind (dict_get user ''name'' JNull) (\<lambda>name.
     ebind (dict_get user ''role'' (JStr ''N/A'')) (\<lambda>role.
     ebind (dict_get user ''email'' JNull) (\<lambda>email.
     ebind (dict_get user ''auth_type'' JNull) (\<lambda>auth_type.
       Inr (JObj
         [(''Name'', name),
          (''Username'', username),
          (''Role'', role),
          (''Email'', email),
          (''Auth Type'', auth_type),
          (''Account OID'', account_oid),
          (''Role (Current)'', roles_string),
          (''New Role'', new_role),
          (''Allowed IP Address'', first_ip),
          (''Notes'', notes)]))))))))))))))))"

definition build_users_info :: "json \<Rightarrow> error + json" where
  "build_users_info filtered_users =
     ebind (iterate filtered_users) (\<lambda>users.
     ebind (map_err user_info users) (\<lambda>users_info. Inr (JArr users_info)))"

definition build_assets_info :: "json \<Rightarrow> error + json" where
  "build_assets_info assets =
     ebind (iterate assets) (\<lambda>elems.
     ebind (map_err (\<lambda>asset. ebind (dict_get asset ''policies'' (JArr [])) (join '', '')) elems)
       (\<lambda>assets_info_list. Inr (JArr assets_info_list)))"

section \<open>The outside world: the source portal, the destination client, the file system\<close>

text \<open>
  Every call that leaves the script takes the state of the outside world \<open>'w\<close> and returns
  a result or an exception together with the new state. What the collaborators answer is a
  parameter of the model. A statement inside the script is \<open>pure\<close>; \<open>sbind\<close> runs one
  statement after another and stops at the first exception, keeping the state reached.
\<close>

type_synonym ('w, 'a) action = "'w \<Rightarrow> (error + 'a) \<times> 'w"

definition pure :: "error + 'a \<Rightarrow> ('w, 'a) action" where
  "pure m = (\<lambda>w. (m, w))"

definition sbind :: "('w, 'a) action \<Rightarrow> ('a \<Rightarrow> ('w, 'b) action) \<Rightarrow> ('w, 'b) action" where
  "sbind m f = (\<lambda>w. case m w of (Inl e, w') \<Rightarrow> (Inl e, w') | (Inr x, w') \<Rightarrow> f x w')"

fun smap :: "('a \<Rightarrow> ('w, 'b) action) \<Rightarrow> 'a list \<Rightarrow> ('w, 'b list) action" where
  "smap f [] = pure (Inr [])"
| "smap f (x # xs) = sbind (f x) (\<lambda>y. sbind (smap f xs) (\<lambda>ys. pure (Inr (y # ys))))"

text \<open>
  An HTTP response as the script reads it: the status code, the cookies, and what
  \<^verbatim>\<open>response.json()\<close> returns or raises.
\<close>

record response =
  status_code :: int
  cookies :: "(string \<times> string) list"
  response_json :: "error + json"

text \<open>
  The three listing URLs. The text of a URL is fixed by the endpoint, the portal address
  and, for the scoped endpoints, the account id formatted into the query string; the
  transport receives these components.
\<close>

datatype url =
    AccountsUrl string
  | AssetsUrl string json
  | UsersUrl string json

text \<open>
  The destination client (class \<^verbatim>\<open>Vision\<close>, imported by the script): the three methods the
  script calls. Their results are tested for truth only.

  In the environment below, \<open>print\<close> stands for \<^verbatim>\<open>print(f"...{value}...")\<close>: the printed
  text is the two literal parts around the formatted value, and the output channel
  receives the three parts. It raises when the standard output cannot take the text
  (an encoding that lacks a character of it, a closed stream).
\<close>

record 'w vision =
  vision_login :: "('w, json) action"
  vision_create_cc_group :: "json \<Rightarrow> json \<Rightarrow> bool \<Rightarrow> ('w, json) action"
  vision_add_user_to_group :: "json \<Rightarrow> json \<Rightarrow> string \<Rightarrow> bool \<Rightarrow> ('w, json) action"

record 'w env =
  requests_post :: "string \<Rightarrow> string \<Rightarrow> ('w, response) action"
  requests_get :: "url \<Rightarrow> string \<Rightarrow> ('w, response) action"
  script_dir :: string
  makedirs :: "string \<Rightarrow> ('w, unit) action"
  now :: "'w \<Rightarrow> string"
  write_json :: "string \<Rightarrow> json \<Rightarrow> ('w, unit) action"
  read_json :: "string \<Rightarrow> ('w, json) action"
  print :: "string \<Rightarrow> json \<Rightarrow> string \<Rightarrow> ('w, unit) action"
  Vision :: "string \<Rightarrow> string \<Rightarrow> string \<Rightarrow> ('w, 'w vision) action"

section \<open>Source session client\<close>

text \<open>
  \<^verbatim>\<open>login\<close>: the session id from the cookie of a 200 response when it is non-empty,
  otherwise \<^verbatim>\<open>None\<close>; a \<^verbatim>\<open>RequestException\<close> of the transport is caught.
\<close>

definition login :: "'w env \<Rightarrow> string \<Rightarrow> string \<Rightarrow> string \<Rightarrow> ('w, string option) action" where
  "login E url username password = (\<lambda>w.
     case requests_post E url (''u='' @ username @ ''&p='' @ password) w of
       (Inl e, w') \<Rightarrow> (if e = RequestException then Inr None else Inl e, w')
     | (Inr response, w') \<Rightarrow>
         (Inr (if status_code response = 200 then
                 (case map_of (cookies response) ''sessionid'' of
                    Some sessionid \<Rightarrow> if sessionid \<noteq> [] then Some sessionid else None
                  | None \<Rightarrow> None)
               else None), w'))"

text \<open>What each listing function does with the response it received.\<close>

definition reply_of :: "response \<Rightarrow> error + json" where
  "reply_of response =
     (if status_code response = 200 then
        ebind (response_json response) (\<lambda>envelope. dict_get envelope ''reply'' (JArr []))
      else Inr (JArr []))"

definition fetch_all_accounts :: "'w env \<Rightarrow> string \<Rightarrow> string \<Rightarrow> ('w, json) action" where
  "fetch_all_accounts E session_id mssp_address =
     sbind (requests_get E (AccountsUrl mssp_address) session_id) (\<lambda>response.
       pure (reply_of response))"

definition fetch_assets_for_account :: "'w env \<Rightarrow> string \<Rightarrow> json \<Rightarrow> string \<Rightarrow> ('w, json) action" where
  "fetch_assets_for_account E session_id account_id mssp_address =
     sbind (requests_get E (AssetsUrl mssp_address account_id) session_id) (\<lambda>response.
       pure (reply_of response))"

definition fetch_users_for_account :: "'w env \<Rightarrow> string \<Rightarrow> json \<Rightarrow> string \<Rightarrow> ('w, json) action" where
  "fetch_users_for_account E session_id account_id mssp_address =
     sbind (requests_get E (UsersUrl mssp_address account_id) session_id) (\<lambda>response.
       pure (reply_of response))"

section \<open>Export builder\<close>

text \<open>The body of the loop over the customer accounts, then \<^verbatim>\<open>build_structured_export\<close>.\<close>

definition account_details :: "'w env \<Rightarrow> string \<Rightarrow> string \<Rightarrow> json \<Rightarrow> ('w, json) action" where
  "account_details E session_id mssp_address account =
     sbind (pure (ebind (dict_get account ''_id'' (JObj [])) (\<lambda>i. dict_get i ''_oid'' (JStr ''N/A'')))) (\<lambda>account_id.
     sbind (pure (dict_get account ''name'' (JStr ''N/A''))) (\<lambda>account_name.
     sbind (pure (dict_get account ''_type'' (JStr ''N/A''))) (\<lambda>account_type.
     sbind (fetch_assets_for_account E session_id account_id mssp_address) (\<lambda>assets.
     sbind (fetch_users_for_account E session_id account_id mssp_address) (\<lambda>fetched.
     sbind (pure (filter_users_by_role fetched ''user'')) (\<lambda>users.
     sbind (pure (build_assets_info assets)) (\<lambda>clean_assets.
     sbind (pure (build_users_info users)) (\<lambda>clean_users.
     sbind (pure (ebind (dict_get account ''services'' (JArr [])) (\<lambda>services.
                  ebind (iterate services) (\<lambda>elems.
                    map_err (\<lambda>service.
                      ebind (dict_get service ''service_type'' (JStr ''N/A'')) (\<lambda>t.
                      ebind (dict_get service ''status'' (JStr ''N/A'')) (\<lambda>st.
                        Inr (JObj [(''Type'', t), (''Status'', st)])))) elems)))) (\<lambda>services_info.
       pure (Inr (JObj
         [(''Account Name'', account_name),
          (''Type'', account_type),
          (''Account OID'', account_id),
          (''Assets'', clean_assets),
          (''Users'', clean_users)])))))))))))"

definition build_structured_export :: "'w env \<Rightarrow> string \<Rightarrow> string \<Rightarrow> ('w, json) action" where
  "build_structured_export E session_id mssp_address =
     sbind (fetch_all_accounts E session_id mssp_address) (\<lambda>fetched.
     sbind (pure (ebind (filter_accounts_by_type fetched ''CustomerAccount'') iterate)) (\<lambda>accounts.
     sbind (smap (account_details E session_id mssp_address) accounts) (\<lambda>all_accounts_info.
       pure (Inr (JArr all_accounts_info)))))"

section \<open>Snapshot store\<close>

text \<open>
  \<^verbatim>\<open>os.path.join(a, b)\<close> on a POSIX system: an absolute second part replaces the first.
\<close>

definition path_join :: "string \<Rightarrow> string \<Rightarrow> string" where
  "path_join a b =
     (if (case b of [] \<Rightarrow> False | c # cs \<Rightarrow> c = CHR ''/'') then b
      else if a = [] \<or> last a = CHR ''/'' then a @ b
      else a @ ''/'' @ b)"

definition save_data_to_json_file :: "'w env \<Rightarrow> json \<Rightarrow> string \<Rightarrow> ('w, unit) action" where
  "save_data_to_json_file E data base_filename =
     sbind (makedirs E (path_join (script_dir E) ''config'')) (\<lambda>_. (\<lambda>w.
       write_json E
         (path_join (path_join (script_dir E) ''config'') (base_filename @ ''_'' @ now E w @ ''.json''))
         data w))"

definition load_config :: "'w env \<Rightarrow> string \<Rightarrow> ('w, json) action" where
  "load_config E filename = read_json E filename"

section \<open>Destination import orchestrator\<close>

text \<open>
  The calls made on the destination client are recorded, in the order they are issued,
  beside the state of the outside world.
\<close>

datatype call =
    Login
  | CreateGroup json json bool
  | AddUser json json string bool

definition issue :: "call \<Rightarrow> ('w, 'a) action \<Rightarrow> ('w \<times> call list, 'a) action" where
  "issue c m = (\<lambda>(w, log). case m w of (r, w') \<Rightarrow> (r, (w', log @ [c])))"

definition on_world :: "('w, 'a) action \<Rightarrow> ('w \<times> call list, 'a) action" where
  "on_world m = (\<lambda>(w, log). case m w of (r, w') \<Rightarrow> (r, (w', log)))"

text \<open>\<^verbatim>\<open>(group["Account Name"] + "_" + group["Account OID"])[:31]\<close>, evaluated left to right.\<close>

definition cc_group_name_of :: "json \<Rightarrow> error + json" where
  "cc_group_name_of entry =
     ebind (getitem entry ''Account Name'') (\<lambda>name.
     ebind (add name (JStr ''_'')) (\<lambda>stem.
     ebind (getitem entry ''Account OID'') (\<lambda>oid.
     ebind (add stem oid) (\<lambda>full. slice_to full 31))))"

text \<open>
  The body of the loop over the entries of the document (\<open>entry\<close> is the source's
  \<^verbatim>\<open>group\<close>). When the group is refused the script prints a line, and nothing catches
  what the printing raises.
\<close>

definition import_group ::
  "'w env \<Rightarrow> 'w vision \<Rightarrow> string \<Rightarrow> bool \<Rightarrow> json \<Rightarrow> ('w \<times> call list, unit) action" where
  "import_group E vision new_user_password dry_run entry =
     sbind (pure (cc_group_name_of entry)) (\<lambda>cc_group_name.
     sbind (pure (getitem entry ''Assets'')) (\<lambda>poList.
     sbind (issue (CreateGroup cc_group_name poList dry_run)
              (vision_create_cc_group vision cc_group_name poList dry_run)) (\<lambda>created.
       if truthy created then
         sbind (pure (ebind (getitem entry ''Users'') iterate)) (\<lambda>users.
         sbind (smap (\<lambda>user. issue (AddUser user cc_group_name new_user_password dry_run)
                        (vision_add_user_to_group vision user cc_group_name new_user_password dry_run))
                  users) (\<lambda>_. pure (Inr ())))
       else
         on_world (print E ''couldn't create group '' cc_group_name
           ('', skipping it completly. '' @ [CHR 0x0A] @ '' please check the logs and try again.'')))))"

definition import_mssp_config ::
  "'w env \<Rightarrow> 'w vision \<Rightarrow> json \<Rightarrow> string \<Rightarrow> bool \<Rightarrow> ('w \<times> call list, unit) action" where
  "import_mssp_config E vision config new_user_password dry_run =
     sbind (issue Login (vision_login vision)) (\<lambda>logged_in.
       if truthy logged_in then
         sbind (pure (iterate config)) (\<lambda>groups.
         sbind (smap (import_group E vision new_user_password dry_run) groups) (\<lambda>_. pure (Inr ())))
       else pure (Inr ()))"

section \<open>The command line\<close>

text \<open>
  The parsed arguments: an option that was not given is \<^verbatim>\<open>None\<close>, and the script tests
  the options for truth, so an empty string counts as not given.
\<close>

record args =
  arg_mssp_address :: "string option"
  arg_mssp_username :: "string option"
  arg_mssp_password :: "string option"
  arg_cc_address :: "string option"
  arg_cc_username :: "string option"
  arg_cc_password :: "string option"
  arg_export_file :: "string option"
  arg_import_from_file :: bool
  arg_config_file :: "string option"
  arg_dry_run :: bool
  arg_initial_user_password :: "string option"

definition given :: "string option \<Rightarrow> bool" where
  "given a = (case a of Some s \<Rightarrow> s \<noteq> [] | None \<Rightarrow> False)"

text \<open>
  The \<^verbatim>\<open>__main__\<close> block after the arguments are parsed: first the document is obtained
  (exported from the portal, or loaded from a file), then it is imported.
\<close>

definition main :: "'w env \<Rightarrow> args \<Rightarrow> ('w \<times> call list, unit) action" where
  "main E a =
     sbind
       (if \<not> arg_import_from_file a then
          if \<not> (given (arg_mssp_address a) \<and> given (arg_mssp_username a) \<and> given (arg_mssp_password a))
          then pure (Inl (SystemExit 2))
          else
            sbind (on_world (login E (''https://'' @ the (arg_mssp_address a) @ ''/api/auth/'')
                     (the (arg_mssp_username a)) (the (arg_mssp_password a)))) (\<lambda>session_id.
              if given session_id then
                sbind (on_world (build_structured_export E (the session_id) (the (arg_mssp_address a))))
                  (\<lambda>structured_export.
                sbind (if given (arg_export_file a)
                       then on_world (save_data_to_json_file E structured_export (the (arg_export_file a)))
                       else pure (Inr ())) (\<lambda>_.
                  pure (Inr structured_export)))
              else pure (Inl (SystemExit 1)))
        else
          if \<not> given (arg_config_file a) then pure (Inl (SystemExit 1))
          else on_world (load_config E (the (arg_config_file a))))
       (\<lambda>config.
          if given (arg_cc_address a) \<and> given (arg_cc_username a) \<and> given (arg_cc_password a) then
            sbind (on_world (Vision E (the (arg_cc_address a)) (the (arg_cc_username a))
                     (the (arg_cc_password a)))) (\<lambda>vision.
              if \<not> given (arg_export_file a) then
                if \<not> given (arg_initial_user_password a)
                then import_mssp_config E vision config ''P@ssw0rd1!'' (arg_dry_run a)
                else import_mssp_config E vision config (the (arg_initial_user_password a)) (arg_dry_run a)
              else pure (Inr ()))
          else pure (Inr ()))"

section \<open>Notions used to state the properties\<close>

text \<open>A record of the source portal is a dictionary.\<close>

fun is_dict :: "json \<Rightarrow> bool" where
  "is_dict (JObj kvs) = True"
| "is_dict _ = False"

text \<open>The record has the field \<open>k\<close> and its value is exactly the string \<open>v\<close>.\<close>

fun has_field :: "string \<Rightarrow> string \<Rightarrow> json \<Rightarrow> bool" where
  "has_field k v (JObj kvs) = (map_of kvs k = Some (JStr v))"
| "has_field k v _ = False"

text \<open>
  A destination client for the examples: login succeeds, creating the group
  \<open>Acme_oid1\<close> fails, every other call succeeds. The outside world has no state.
\<close>

definition demo_vision :: "unit vision" where
  "demo_vision =
     \<lparr>vision_login = (\<lambda>w. (Inr (JBool True), w)),
      vision_create_cc_group =
        (\<lambda>cc_group_name poList dry_run w. (Inr (JBool (cc_group_name \<noteq> JStr ''Acme_oid1'')), w)),
      vision_add_user_to_group =
        (\<lambda>user cc_group_name password dry_run w. (Inr (JBool True), w))\<rparr>"

text \<open>A client whose login is refused.\<close>

definition refusing_vision :: "unit vision" where
  "refusing_vision = demo_vision\<lparr>vision_login := (\<lambda>w. (Inr (JBool False), w))\<rparr>"

text \<open>A document with two entries: the group of the first cannot be created.\<close>

definition demo_document :: json where
  "demo_document =
     JArr
      [JObj [(''Account Name'', JStr ''Acme''), (''Type'', JStr ''CustomerAccount''),
             (''Account OID'', JStr ''oid1''), (''Assets'', JArr [JStr ''p1, p2'']),
             (''Users'', JArr [JObj [(''Username'', JStr ''alice'')]])],
       JObj [(''Account Name'', JStr ''VeryLongCustomerNameExceedingLimit''),
             (''Type'', JStr ''CustomerAccount''),
             (''Account OID'', JStr ''abc123''), (''Assets'', JArr []),
             (''Users'', JArr [JObj [(''Username'', JStr ''bob'')]])]]"

text \<open>
  A source portal for the examples. It knows three accounts: the customer \<open>Acme\<close> with
  one asset and two users (only \<open>alice\<close> has the role \<open>user\<close>), a partner account, and
  the customer \<open>Empty Co\<close>, whose asset listing answers 500 and whose user listing is an
  envelope without \<open>reply\<close>. File operations and printing succeed, and the destination
  client is \<open>demo_vision\<close>.
\<close>

definition demo_accounts :: json where
  "demo_accounts =
     JArr
      [JObj [(''_id'', JObj [(''_oid'', JStr ''oid1'')]), (''name'', JStr ''Acme''),
             (''_type'', JStr ''CustomerAccount''),
             (''services'', JArr [JObj [(''service_type'', JStr ''ddos''), (''status'', JStr ''on'')]])],
       JObj [(''_id'', JObj [(''_oid'', JStr ''oid2'')]), (''name'', JStr ''Partner''),
             (''_type'', JStr ''MsspAccount'')],
       JObj [(''_id'', JObj [(''_oid'', JStr ''oid3'')]), (''name'', JStr ''Empty Co''),
             (''_type'', JStr ''CustomerAccount'')]]"

definition demo_users :: json where
  "demo_users =
     JArr
      [JObj [(''name'', JStr ''Alice''), (''username'', JStr ''alice''), (''role'', JStr ''user''),
             (''email'', JStr ''alice@acme.example''),
             (''account'', JObj [(''_oid'', JStr ''oid1'')]),
             (''roles'', JObj [(''currentAccount'', JArr [JStr ''basicUser''])])],
       JObj [(''username'', JStr ''olga''), (''role'', JStr ''operator'')]]"

definition ok_response :: "json \<Rightarrow> response" where
  "ok_response body = \<lparr>status_code = 200, cookies = [], response_json = Inr body\<rparr>"

definition demo_env :: "unit env" where
  "demo_env =
     \<lparr>requests_post = (\<lambda>url payload w.
        (Inr \<lparr>status_code = 200, cookies = [(''sessionid'', ''s1'')],
              response_json = Inl JSONDecodeError\<rparr>, w)),
      requests_get = (\<lambda>u session_id w.
        (Inr (case u of
                AccountsUrl a \<Rightarrow> ok_response (JObj [(''reply'', demo_accounts)])
              | AssetsUrl a i \<Rightarrow>
                  if i = JStr ''oid1''
                  then ok_response
                         (JObj [(''reply'', JArr [JObj [(''policies'', JArr [JStr ''p1'', JStr ''p2''])]])])
                  else \<lparr>status_code = 500, cookies = [], response_json = Inl JSONDecodeError\<rparr>
              | UsersUrl a i \<Rightarrow>
                  if i = JStr ''oid1'' then ok_response (JObj [(''reply'', demo_users)])
                  else ok_response (JObj [])), w)),
      script_dir = ''/opt/tool'',
      makedirs = (\<lambda>path w. (Inr (), w)),
      now = (\<lambda>w. ''2024-02-22_16-46-54''),
      write_json = (\<lambda>path data w. (Inr (), w)),
      read_json = (\<lambda>path w. (Inr demo_document, w)),
      print = (\<lambda>before v after w. (Inr (), w)),
      Vision = (\<lambda>address username password w. (Inr demo_vision, w))\<rparr>"

text \<open>A live run with every credential given, and the same run with \<^verbatim>\<open>--export-file\<close>.\<close>

definition live_args :: args where
  "live_args =
     \<lparr>arg_mssp_address = Some ''portal'', arg_mssp_username = Some ''admin'',
      arg_mssp_password = Some ''secret'', arg_cc_address = Some ''cc'',
      arg_cc_username = Some ''radware'', arg_cc_password = Some ''secret2'',
      arg_export_file = None, arg_import_from_file = False, arg_config_file = None,
      arg_dry_run = False, arg_initial_user_password = None\<rparr>"

definition live_args_export :: args where
  "live_args_export = live_args\<lparr>arg_export_file := Some ''snapshot''\<rparr>"

text \<open>
  The same environment with a standard output that encodes ASCII only: printing a
  string that holds a character beyond code 127 raises \<open>UnicodeEncodeError\<close>.
\<close>

fun ascii_only :: "json \<Rightarrow> bool" where
  "ascii_only (JStr s) = list_all (\<lambda>c. (of_char c :: nat) < 128) s"
| "ascii_only _ = True"

definition ascii_stdout_env :: "unit env" where
  "ascii_stdout_env =
     demo_env\<lparr>print := (\<lambda>before v after w.
       (if ascii_only v then Inr () else Inl UnicodeEncodeError, w))\<rparr>"

text \<open>A client that logs in and refuses every group.\<close>

definition refusing_groups_vision :: "unit vision" where
  "refusing_groups_vision =
     demo_vision\<lparr>vision_create_cc_group :=
       (\<lambda>cc_group_name poList dry_run w. (Inr (JBool False), w))\<rparr>"

text \<open>
  A document with two entries; the name of the first account is \<open>Caf\<close> followed by the
  letter e with an acute accent (code 233).
\<close>

definition cafe_document :: json where
  "cafe_document =
     JArr
      [JObj [(''Account Name'', JStr (''Caf'' @ [CHR 0xE9])), (''Type'', JStr ''CustomerAccount''),
             (''Account OID'', JStr ''oid1''), (''Assets'', JArr []),
             (''Users'', JArr [JObj [(''Username'', JStr ''alice'')]])],
       JObj [(''Account Name'', JStr ''Other''), (''Type'', JStr ''CustomerAccount''),
             (''Account OID'', JStr ''oid2''), (''Assets'', JArr []),
             (''Users'', JArr [JObj [(''Username'', JStr ''bob'')]])]]"

text \<open>The document that the export builds from the portal of the examples.\<close>

definition demo_exported :: json where
  "demo_exported =
     JArr
      [JObj
        [(''Account Name'', JStr ''Acme''),
         (''Type'', JStr ''CustomerAccount''),
         (''Account OID'', JStr ''oid1''),
         (''Assets'', JArr [JStr ''p1, p2'']),
         (''Users'',
          JArr
           [JObj
             [(''Name'', JStr ''Alice''), (''Username'', JStr ''alice''),
              (''Role'', JStr ''user''),
              (''Email'', JStr ''alice@acme.example''),
              (''Auth Type'', JNull), (''Account OID'', JStr ''oid1''),
              (''Role (Current)'', JStr ''basicUser''),
              (''New Role'', JStr ''MSSP_PORTAL_USER''),
              (''Allowed IP Address'', JStr []), (''Notes'', JStr [])]])],
       JObj
        [(''Account Name'', JStr ''Empty Co''),
         (''Type'', JStr ''CustomerAccount''),
         (''Account OID'', JStr ''oid3''), (''Assets'', JArr []),
         (''Users'', JArr [])]]"

text \<open>
  \<open>entry_of E session_id mssp_address account entry\<close>: the entry carries the name, the
  type tag and the OID of the account (with their defaults), and its users are the
  mapped users of role \<open>user\<close> that some listing of the account's users returned; when
  no listed user has that role, the entry has the empty list of users.
\<close>

definition entry_of :: "'w env \<Rightarrow> string \<Rightarrow> string \<Rightarrow> json \<Rightarrow> json \<Rightarrow> bool" where
  "entry_of E session_id mssp_address account entry =
     (\<exists>name type_tag oid assets users fetched wa wb.
        entry = JObj [(''Account Name'', name), (''Type'', type_tag), (''Account OID'', oid),
                      (''Assets'', assets), (''Users'', users)]
      \<and> dict_get account ''name'' (JStr ''N/A'') = Inr name
      \<and> dict_get account ''_type'' (JStr ''N/A'') = Inr type_tag
      \<and> ebind (dict_get account ''_id'' (JObj [])) (\<lambda>i. dict_get i ''_oid'' (JStr ''N/A'')) = Inr oid
      \<and> fetch_users_for_account E session_id oid mssp_address wa = (Inr fetched, wb)
      \<and> ebind (filter_users_by_role fetched ''user'') build_users_info = Inr users
      \<and> (filter_users_by_role fetched ''user'' = Inr (JArr []) \<longrightarrow> users = JArr []))"

section \<open>Properties of the role mapping\<close>

lemma select_new_role_list:
  "select_new_role (JArr roles) =
     Inr (if JStr ''userAdmin'' \<in> set roles then JStr ''MSSP_PORTAL_ADMIN''
          else if JStr ''basicUser'' \<in> set roles then JStr ''MSSP_PORTAL_USER''
          else if JStr ''dashboardUser'' \<in> set roles then JStr ''MSSP_PORTAL_VIEWER''
          else if JStr ''userViewer'' \<in> set roles then JStr ''MSSP_PORTAL_VIEWER''
          else JNull)"
  by (simp add: select_new_role_def new_role_mapping_def role_priority_def ebind_def)

text \<open>
  Claim C1. On every list of current-account roles \<open>select_new_role\<close> returns (it never
  raises) the destination identifier of the first role, in the order \<open>userAdmin\<close>,
  \<open>basicUser\<close>, \<open>dashboardUser\<close>, \<open>userViewer\<close>, that the list contains. So a list
  with \<open>userAdmin\<close> gives the admin identifier whatever else it holds, and a list with
  none of the four roles gives \<^verbatim>\<open>None\<close>.
\<close>

theorem select_new_role_priority:
  "select_new_role (JArr roles) =
     Inr (if JStr ''userAdmin'' \<in> set roles then JStr ''MSSP_PORTAL_ADMIN''
          else if JStr ''basicUser'' \<in> set roles then JStr ''MSSP_PORTAL_USER''
          else if JStr ''dashboardUser'' \<in> set roles then JStr ''MSSP_PORTAL_VIEWER''
          else if JStr ''userViewer'' \<in> set roles then JStr ''MSSP_PORTAL_VIEWER''
          else JNull)
   \<and> (JStr ''userAdmin'' \<in> set roles \<longrightarrow>
        select_new_role (JArr roles) = Inr (JStr ''MSSP_PORTAL_ADMIN''))
   \<and> (JStr ''userAdmin'' \<notin> set roles \<and> JStr ''basicUser'' \<notin> set roles \<and>
      JStr ''dashboardUser'' \<notin> set roles \<and> JStr ''userViewer'' \<notin> set roles \<longrightarrow>
        select_new_role (JArr roles) = Inr JNull)"
  by (simp add: select_new_role_list)

theorem select_new_role_priority_witness:
  "select_new_role (JArr [JStr ''userViewer'', JStr ''basicUser'', JStr ''userAdmin'']) =
     Inr (JStr ''MSSP_PORTAL_ADMIN'')
   \<and> select_new_role (JArr [JStr ''userViewer'', JStr ''basicUser'']) = Inr (JStr ''MSSP_PORTAL_USER'')
   \<and> select_new_role (JArr [JStr ''operator'', JInt 7]) = Inr JNull"
  using select_new_role_priority [of "[JStr ''userViewer'', JStr ''basicUser'', JStr ''userAdmin'']"]
    select_new_role_priority [of "[JStr ''userViewer'', JStr ''basicUser'']"]
    select_new_role_priority [of "[JStr ''operator'', JInt 7]"]
  by simp

text \<open>
  Claim C10. On every list of roles the result of \<open>select_new_role\<close> is \<^verbatim>\<open>None\<close> or one
  of the three identifiers \<open>MSSP_PORTAL_ADMIN\<close>, \<open>MSSP_PORTAL_USER\<close>,
  \<open>MSSP_PORTAL_VIEWER\<close>, and so is every value it returns on any other argument. Scanning \<open>userViewer\<close> before \<open>dashboardUser\<close> gives the same
  result as the order of the source, and a list that holds one viewer role gives the same
  result as a list that holds both besides the same other roles.
\<close>

theorem select_new_role_range:
  assumes "JStr ''dashboardUser'' \<in> set roles \<or> JStr ''userViewer'' \<in> set roles"
    and "set both = set roles \<union> {JStr ''dashboardUser'', JStr ''userViewer''}"
  shows "select_new_role (JArr any) \<in>
           {Inr JNull, Inr (JStr ''MSSP_PORTAL_ADMIN''), Inr (JStr ''MSSP_PORTAL_USER''),
            Inr (JStr ''MSSP_PORTAL_VIEWER'')}
       \<and> scan_roles new_role_mapping [''userAdmin'', ''basicUser'', ''userViewer'', ''dashboardUser'']
           (JArr any) = select_new_role (JArr any)
       \<and> select_new_role (JArr both) = select_new_role (JArr roles)
       \<and> (\<forall>x v. select_new_role x = Inr v \<longrightarrow>
             v \<in> {JNull, JStr ''MSSP_PORTAL_ADMIN'', JStr ''MSSP_PORTAL_USER'',
                  JStr ''MSSP_PORTAL_VIEWER''})"
proof (intro conjI allI impI)
  show "select_new_role (JArr any) \<in>
           {Inr JNull, Inr (JStr ''MSSP_PORTAL_ADMIN''), Inr (JStr ''MSSP_PORTAL_USER''),
            Inr (JStr ''MSSP_PORTAL_VIEWER'')}"
    by (simp add: select_new_role_list)
  show "scan_roles new_role_mapping [''userAdmin'', ''basicUser'', ''userViewer'', ''dashboardUser'']
           (JArr any) = select_new_role (JArr any)"
    by (simp add: select_new_role_def new_role_mapping_def role_priority_def ebind_def)
  from assms show "select_new_role (JArr both) = select_new_role (JArr roles)"
    by (auto simp add: select_new_role_list)
next
  fix x v
  assume "select_new_role x = Inr v"
  then show "v \<in> {JNull, JStr ''MSSP_PORTAL_ADMIN'', JStr ''MSSP_PORTAL_USER'',
                  JStr ''MSSP_PORTAL_VIEWER''}"
    by (cases x)
      (auto simp add: select_new_role_def new_role_mapping_def role_priority_def ebind_def
        split: if_splits)
qed

theorem select_new_role_range_witness:
  "select_new_role (JArr [JStr ''userViewer'', JStr ''x'', JStr ''dashboardUser'']) =
     select_new_role (JArr [JStr ''x'', JStr ''userViewer''])
   \<and> select_new_role (JArr [JStr ''x'', JStr ''userViewer'']) = Inr (JStr ''MSSP_PORTAL_VIEWER'')"
proof -
  have a: "JStr ''dashboardUser'' \<in> set [JStr ''x'', JStr ''userViewer''] \<or>
           JStr ''userViewer'' \<in> set [JStr ''x'', JStr ''userViewer'']"
    by simp
  have b: "set [JStr ''userViewer'', JStr ''x'', JStr ''dashboardUser''] =
           set [JStr ''x'', JStr ''userViewer''] \<union> {JStr ''dashboardUser'', JStr ''userViewer''}"
    by auto
  from select_new_role_range [OF a b, of "[]"] show ?thesis
    by (simp add: select_new_role_list)
qed

section \<open>Properties of the filters\<close>

lemma ebind_simps [simp]:
  "ebind (Inl e) f = Inl e"
  "ebind (Inr x) f = f x"
  by (simp_all add: ebind_def)

lemma field_test_dict:
  "is_dict a \<Longrightarrow> ebind (dict_get a k JNull) (\<lambda>v. Inr (v = JStr t)) = Inr (has_field k t a)"
  by (cases a) (auto split: option.splits)

lemma field_test_other:
  "\<not> is_dict a \<Longrightarrow> ebind (dict_get a k JNull) (\<lambda>v. Inr (v = JStr t)) = Inl AttributeError"
  by (cases a) auto

lemma filter_err_field:
  "filter_err (\<lambda>a. ebind (dict_get a k JNull) (\<lambda>v. Inr (v = JStr t))) xs =
     (if list_all is_dict xs then Inr (filter (has_field k t) xs) else Inl AttributeError)"
proof (induction xs)
  case Nil
  then show ?case by simp
next
  case (Cons a xs)
  show ?case
  proof (cases "is_dict a")
    case True
    then show ?thesis using Cons by (simp add: field_test_dict)
  next
    case False
    then show ?thesis by (simp add: field_test_other)
  qed
qed

lemma list_all_filter_dict: "list_all is_dict xs \<Longrightarrow> list_all is_dict (filter P xs)"
  by (induction xs) auto

text \<open>
  Claim C7. On a list of records \<open>filter_accounts_by_type\<close> and \<open>filter_users_by_role\<close>
  return exactly the records whose \<open>_type\<close> (respectively \<open>role\<close>) field is the wanted
  string, compared character by character, in the order of the input: a subsequence of
  it. Filtering the result again with the same wanted value changes nothing. Both take
  and return values only, no state of the outside world. (An element that is not a
  dictionary makes the comprehension raise \<open>AttributeError\<close>.)
\<close>

theorem filters_exact_subsequence_idempotent:
  "filter_accounts_by_type (JArr accounts) account_type =
     (if list_all is_dict accounts
      then Inr (JArr (filter (has_field ''_type'' account_type) accounts))
      else Inl AttributeError)
   \<and> filter_users_by_role (JArr users) role =
     (if list_all is_dict users
      then Inr (JArr (filter (has_field ''role'' role) users))
      else Inl AttributeError)
   \<and> subseq (filter (has_field ''_type'' account_type) accounts) accounts
   \<and> subseq (filter (has_field ''role'' role) users) users
   \<and> ebind (filter_accounts_by_type (JArr accounts) account_type)
        (\<lambda>once. filter_accounts_by_type once account_type) =
      filter_accounts_by_type (JArr accounts) account_type
   \<and> ebind (filter_users_by_role (JArr users) role) (\<lambda>once. filter_users_by_role once role) =
      filter_users_by_role (JArr users) role"
  by (simp add: filter_accounts_by_type_def filter_users_by_role_def filter_err_field
      list_all_filter_dict)

theorem filters_exact_subsequence_idempotent_witness:
  "filter_accounts_by_type
     (JArr [JObj [(''name'', JStr ''a''), (''_type'', JStr ''CustomerAccount'')],
            JObj [(''name'', JStr ''b''), (''_type'', JStr ''customeraccount'')],
            JObj [(''name'', JStr ''c'')],
            JObj [(''_type'', JStr ''CustomerAccount''), (''name'', JStr ''d'')]])
     ''CustomerAccount'' =
   Inr (JArr [JObj [(''name'', JStr ''a''), (''_type'', JStr ''CustomerAccount'')],
              JObj [(''_type'', JStr ''CustomerAccount''), (''name'', JStr ''d'')]])
   \<and> filter_users_by_role
     (JArr [JObj [(''role'', JStr ''operator'')], JObj [(''role'', JStr ''user'')],
            JObj [(''role'', JStr ''User'')]]) ''user'' =
   Inr (JArr [JObj [(''role'', JStr ''user'')]])"
  using filters_exact_subsequence_idempotent
    [of "[JObj [(''name'', JStr ''a''), (''_type'', JStr ''CustomerAccount'')],
          JObj [(''name'', JStr ''b''), (''_type'', JStr ''customeraccount'')],
          JObj [(''name'', JStr ''c'')],
          JObj [(''_type'', JStr ''CustomerAccount''), (''name'', JStr ''d'')]]"
        "''CustomerAccount''"
        "[JObj [(''role'', JStr ''operator'')], JObj [(''role'', JStr ''user'')],
          JObj [(''role'', JStr ''User'')]]"
        "''user''"]
  by simp

section \<open>Properties of the listing calls\<close>

lemma sbind_pure [simp]:
  "sbind (pure (Inr x)) f = f x"
  "sbind (pure (Inl e)) f = pure (Inl e)"
  by (simp_all add: sbind_def pure_def)

lemma sbind_apply:
  "m w = (Inr x, w') \<Longrightarrow> sbind m f w = f x w'"
  "m w = (Inl e, w') \<Longrightarrow> sbind m f w = (Inl e, w')"
  by (simp_all add: sbind_def)

text \<open>
  Claim C8. When the transport returns a response whose status is not 200, each of
  \<open>fetch_all_accounts\<close>, \<open>fetch_assets_for_account\<close> and \<open>fetch_users_for_account\<close>
  returns the empty list and raises nothing. When the status is 200 and the body is a
  JSON envelope, it returns the value of the field \<open>reply\<close>, and the empty list when the
  envelope has no such field.
\<close>

theorem listing_degrades_to_empty:
  assumes "requests_get E (AccountsUrl mssp_address) session_id w1 = (Inr r1, v1)"
    and "requests_get E (AssetsUrl mssp_address account_id) session_id w2 = (Inr r2, v2)"
    and "requests_get E (UsersUrl mssp_address account_id) session_id w3 = (Inr r3, v3)"
  shows "(status_code r1 \<noteq> 200 \<longrightarrow>
            fetch_all_accounts E session_id mssp_address w1 = (Inr (JArr []), v1))
       \<and> (status_code r2 \<noteq> 200 \<longrightarrow>
            fetch_assets_for_account E session_id account_id mssp_address w2 = (Inr (JArr []), v2))
       \<and> (status_code r3 \<noteq> 200 \<longrightarrow>
            fetch_users_for_account E session_id account_id mssp_address w3 = (Inr (JArr []), v3))
       \<and> (\<forall>envelope. status_code r1 = 200 \<and> response_json r1 = Inr (JObj envelope) \<longrightarrow>
            fetch_all_accounts E session_id mssp_address w1 =
              (Inr (case map_of envelope ''reply'' of Some reply \<Rightarrow> reply | None \<Rightarrow> JArr []), v1))
       \<and> (\<forall>envelope. status_code r2 = 200 \<and> response_json r2 = Inr (JObj envelope) \<longrightarrow>
            fetch_assets_for_account E session_id account_id mssp_address w2 =
              (Inr (case map_of envelope ''reply'' of Some reply \<Rightarrow> reply | None \<Rightarrow> JArr []), v2))
       \<and> (\<forall>envelope. status_code r3 = 200 \<and> response_json r3 = Inr (JObj envelope) \<longrightarrow>
            fetch_users_for_account E session_id account_id mssp_address w3 =
              (Inr (case map_of envelope ''reply'' of Some reply \<Rightarrow> reply | None \<Rightarrow> JArr []), v3))"
  using assms
  by (simp add: fetch_all_accounts_def fetch_assets_for_account_def fetch_users_for_account_def
      sbind_apply reply_of_def pure_def)

theorem listing_degrades_to_empty_witness:
  "fetch_all_accounts demo_env ''s1'' ''portal'' () = (Inr demo_accounts, ())
   \<and> fetch_assets_for_account demo_env ''s1'' (JStr ''oid3'') ''portal'' () = (Inr (JArr []), ())
   \<and> fetch_users_for_account demo_env ''s1'' (JStr ''oid3'') ''portal'' () = (Inr (JArr []), ())"
proof -
  have a: "requests_get demo_env (AccountsUrl ''portal'') ''s1'' () =
             (Inr (ok_response (JObj [(''reply'', demo_accounts)])), ())"
    by (simp add: demo_env_def)
  have b: "requests_get demo_env (AssetsUrl ''portal'' (JStr ''oid3'')) ''s1'' () =
             (Inr \<lparr>status_code = 500, cookies = [], response_json = Inl JSONDecodeError\<rparr>, ())"
    by (simp add: demo_env_def)
  have c: "requests_get demo_env (UsersUrl ''portal'' (JStr ''oid3'')) ''s1'' () =
             (Inr (ok_response (JObj [])), ())"
    by (simp add: demo_env_def)
  from listing_degrades_to_empty [OF a b c] show ?thesis
    by (simp add: ok_response_def)
qed

section \<open>Properties of the import\<close>

lemma issue_apply: "m w = (r, w') \<Longrightarrow> issue c m (w, log) = (r, (w', log @ [c]))"
  by (simp add: issue_def)

lemma cc_group_name_of_strings:
  assumes "getitem entry ''Account Name'' = Inr (JStr name)"
    and "getitem entry ''Account OID'' = Inr (JStr oid)"
  shows "cc_group_name_of entry = Inr (JStr (take 31 (name @ ''_'' @ oid)))"
  using assms by (simp add: cc_group_name_of_def)

lemma smap_issue_log:
  "\<exists>r w' more. smap (\<lambda>x. issue (c x) (m x)) xs (w, log) = (r, (w', log @ more)) \<and>
     more = map c (take (length more) xs)"
proof (induction xs arbitrary: w log)
  case Nil
  then show ?case by (simp add: pure_def)
next
  case (Cons x xs)
  obtain r1 w1 where m: "m x w = (r1, w1)" by (cases "m x w")
  then have i: "issue (c x) (m x) (w, log) = (r1, (w1, log @ [c x]))" by (simp add: issue_apply)
  show ?case
  proof (cases r1)
    case (Inl e)
    with i have "smap (\<lambda>x. issue (c x) (m x)) (x # xs) (w, log) = (Inl e, (w1, log @ [c x]))"
      by (simp add: sbind_apply)
    then show ?thesis by (intro exI[of _ "Inl e"] exI[of _ w1] exI[of _ "[c x]"]) simp
  next
    case (Inr y)
    from Cons.IH[of w1 "log @ [c x]"] obtain r w' more where
      s: "smap (\<lambda>x. issue (c x) (m x)) xs (w1, log @ [c x]) = (r, (w', (log @ [c x]) @ more))"
      and mo: "more = map c (take (length more) xs)" by blast
    have "\<exists>r'. smap (\<lambda>x. issue (c x) (m x)) (x # xs) (w, log) = (r', (w', log @ (c x # more)))"
      using i Inr s by (cases r) (simp_all add: sbind_apply pure_def)
    then obtain r' where
      e: "smap (\<lambda>x. issue (c x) (m x)) (x # xs) (w, log) = (r', (w', log @ (c x # more)))" ..
    have l: "c x # more = map c (take (length (c x # more)) (x # xs))" using mo by simp
    show ?thesis
      by (rule exI[of _ r'], rule exI[of _ w'], rule exI[of _ "c x # more"]) (rule conjI[OF e l])
  qed
qed

lemma smap_append:
  "smap f (xs @ ys) w =
     (case smap f xs w of
        (Inl e, w') \<Rightarrow> (Inl e, w')
      | (Inr rs, w') \<Rightarrow>
          (case smap f ys w' of
             (Inl e, w'') \<Rightarrow> (Inl e, w'')
           | (Inr rs', w'') \<Rightarrow> (Inr (rs @ rs'), w'')))"
proof (induction xs arbitrary: w)
  case Nil
  then show ?case by (simp add: pure_def split: prod.splits sum.splits)
next
  case (Cons x xs)
  then show ?case
    by (simp add: sbind_def pure_def split: prod.splits sum.splits)
qed

lemma on_world_apply: "m w = (r, w') \<Longrightarrow> on_world m (w, log) = (r, (w', log))"
  by (simp add: on_world_def)

lemma import_group_refused:
  assumes "cc_group_name_of entry = Inr nm" and "getitem entry ''Assets'' = Inr assets"
    and "vision_create_cc_group vision nm assets dry w = (Inr created, w')"
    and "\<not> truthy created"
    and "print E ''couldn't create group '' nm
           ('', skipping it completly. '' @ [CHR 0x0A] @ '' please check the logs and try again.'') w' =
         (printed, w'')"
  shows "import_group E vision pw dry entry (w, log) =
           (printed, (w'', log @ [CreateGroup nm assets dry]))"
proof -
  have i: "issue (CreateGroup nm assets dry) (vision_create_cc_group vision nm assets dry) (w, log) =
             (Inr created, (w', log @ [CreateGroup nm assets dry]))"
    using assms(3) by (simp add: issue_apply)
  have p: "on_world (print E ''couldn't create group '' nm
           ('', skipping it completly. '' @ [CHR 0x0A] @ '' please check the logs and try again.''))
           (w', log @ [CreateGroup nm assets dry]) = (printed, (w'', log @ [CreateGroup nm assets dry]))"
    using assms(5) by (rule on_world_apply)
  show ?thesis
    using assms(1,2,4) i p by (simp add: import_group_def sbind_apply)
qed

text \<open>
  Claim C9. When the login of the destination client fails (it returns a false value, or
  it raises), \<open>import_mssp_config\<close> does nothing more: for every document, password and
  dry-run flag the only call made on the client is the login itself, so no group is
  created and no user is added.
\<close>

theorem failed_login_processes_nothing:
  assumes "vision_login vision w = (r, w')"
    and "case r of Inl e \<Rightarrow> True | Inr v \<Rightarrow> \<not> truthy v"
  shows "import_mssp_config E vision config new_user_password dry_run (w, log) =
           (case r of Inl e \<Rightarrow> Inl e | Inr v \<Rightarrow> Inr (), (w', log @ [Login]))"
proof (cases r)
  case (Inl e)
  with assms(1) have "issue Login (vision_login vision) (w, log) = (Inl e, (w', log @ [Login]))"
    by (simp add: issue_apply)
  then show ?thesis using Inl by (simp add: import_mssp_config_def sbind_apply)
next
  case (Inr v)
  with assms(1) have "issue Login (vision_login vision) (w, log) = (Inr v, (w', log @ [Login]))"
    by (simp add: issue_apply)
  moreover from Inr assms(2) have "\<not> truthy v" by simp
  ultimately show ?thesis using Inr by (simp add: import_mssp_config_def sbind_apply pure_def)
qed

theorem failed_login_processes_nothing_witness:
  "import_mssp_config demo_env refusing_vision demo_document ''pw'' False ((), []) = (Inr (), ((), [Login]))"
proof -
  have a: "vision_login refusing_vision () = (Inr (JBool False), ())"
    by (simp add: refusing_vision_def demo_vision_def)
  have b: "case (Inr (JBool False) :: error + json) of Inl e \<Rightarrow> True | Inr v \<Rightarrow> \<not> truthy v"
    by simp
  from failed_login_processes_nothing [OF a b, where E = demo_env and config = demo_document
      and new_user_password = "''pw''" and dry_run = False and log = "[]"]
  show ?thesis by simp
qed

lemma import_group_calls:
  assumes n: "cc_group_name_of entry = Inr nm" and a: "getitem entry ''Assets'' = Inr assets"
  shows "\<exists>r w' users. import_group E vision pw dry entry (w, log) =
           (r, (w', log @ CreateGroup nm assets dry # map (\<lambda>user. AddUser user nm pw dry) users))"
proof -
  obtain r1 w1 where c: "vision_create_cc_group vision nm assets dry w = (r1, w1)"
    by (cases "vision_create_cc_group vision nm assets dry w")
  then have i: "issue (CreateGroup nm assets dry) (vision_create_cc_group vision nm assets dry) (w, log)
      = (r1, (w1, log @ [CreateGroup nm assets dry]))"
    by (simp add: issue_apply)
  have none: "log @ [CreateGroup nm assets dry] =
      log @ CreateGroup nm assets dry # map (\<lambda>user. AddUser user nm pw dry) []"
    by simp
  show ?thesis
  proof (cases r1)
    case (Inl e)
    with n a i have "import_group E vision pw dry entry (w, log) =
        (Inl e, (w1, log @ [CreateGroup nm assets dry]))"
      by (simp add: import_group_def sbind_apply)
    with none show ?thesis by metis
  next
    case (Inr created)
    show ?thesis
    proof (cases "truthy created")
      case False
      obtain printed w2 where
        "print E ''couldn't create group '' nm
           ('', skipping it completly. '' @ [CHR 0x0A] @ '' please check the logs and try again.'') w1 =
         (printed, w2)"
        by (cases "print E ''couldn't create group '' nm
           ('', skipping it completly. '' @ [CHR 0x0A] @ '' please check the logs and try again.'') w1")
      with n a c Inr False have "import_group E vision pw dry entry (w, log) =
          (printed, (w2, log @ [CreateGroup nm assets dry]))"
        by (simp add: import_group_refused)
      with none show ?thesis by metis
    next
      case True
      show ?thesis
      proof (cases "ebind (getitem entry ''Users'') iterate")
        case (Inl e)
        with n a i Inr True have "import_group E vision pw dry entry (w, log) =
            (Inl e, (w1, log @ [CreateGroup nm assets dry]))"
          by (simp add: import_group_def sbind_apply pure_def)
        with none show ?thesis by metis
      next
        case us: (Inr users)
        from smap_issue_log [of "\<lambda>user. AddUser user nm pw dry"
            "\<lambda>user. vision_add_user_to_group vision user nm pw dry" users w1
            "log @ [CreateGroup nm assets dry]"]
        obtain r w' more where
          s: "smap (\<lambda>user. issue (AddUser user nm pw dry)
                 (vision_add_user_to_group vision user nm pw dry)) users
                (w1, log @ [CreateGroup nm assets dry]) = (r, (w', (log @ [CreateGroup nm assets dry]) @ more))"
          and m: "more = map (\<lambda>user. AddUser user nm pw dry) (take (length more) users)"
          by blast
        have "\<exists>r'. import_group E vision pw dry entry (w, log) =
            (r', (w', log @ CreateGroup nm assets dry # more))"
          using n a i Inr True us s
          by (cases r) (simp_all add: import_group_def sbind_apply pure_def)
        with m show ?thesis by metis
      qed
    qed
  qed
qed

text \<open>
  Claim C2. For an entry whose account name and account OID are strings, the group name
  that the import computes, passes to the group creation and to every user creation of
  that entry, is the account name, an underscore and the OID, cut after 31 characters: it
  is never longer than 31. For the name \<open>VeryLongCustomerNameExceedingLimit\<close> and the
  OID \<open>abc123\<close> it is \<open>VeryLongCustomerNameExceedingLi\<close>, of exactly 31 characters.
\<close>

theorem group_name_truncated_to_31:
  assumes "getitem entry ''Account Name'' = Inr (JStr name)"
    and "getitem entry ''Account OID'' = Inr (JStr oid)"
    and "getitem entry ''Assets'' = Inr assets"
  shows "cc_group_name_of entry = Inr (JStr (take 31 (name @ ''_'' @ oid)))
       \<and> length (take 31 (name @ ''_'' @ oid)) \<le> 31
       \<and> (\<exists>r w' users. import_group E vision pw dry entry (w, log) =
             (r, (w', log @ CreateGroup (JStr (take 31 (name @ ''_'' @ oid))) assets dry #
                        map (\<lambda>user. AddUser user (JStr (take 31 (name @ ''_'' @ oid))) pw dry) users)))
       \<and> cc_group_name_of
           (JObj [(''Account Name'', JStr ''VeryLongCustomerNameExceedingLimit''),
                  (''Account OID'', JStr ''abc123'')]) =
         Inr (JStr ''VeryLongCustomerNameExceedingLi'')
       \<and> length ''VeryLongCustomerNameExceedingLi'' = 31"
proof (intro conjI)
  show n: "cc_group_name_of entry = Inr (JStr (take 31 (name @ ''_'' @ oid)))"
    using assms(1,2) by (rule cc_group_name_of_strings)
  show "length (take 31 (name @ ''_'' @ oid)) \<le> 31" by simp
  show "\<exists>r w' users. import_group E vision pw dry entry (w, log) =
             (r, (w', log @ CreateGroup (JStr (take 31 (name @ ''_'' @ oid))) assets dry #
                        map (\<lambda>user. AddUser user (JStr (take 31 (name @ ''_'' @ oid))) pw dry) users))"
    using n assms(3) by (rule import_group_calls)
  show "cc_group_name_of
           (JObj [(''Account Name'', JStr ''VeryLongCustomerNameExceedingLimit''),
                  (''Account OID'', JStr ''abc123'')]) =
         Inr (JStr ''VeryLongCustomerNameExceedingLi'')"
    by (simp add: cc_group_name_of_def)
  show "length ''VeryLongCustomerNameExceedingLi'' = 31" by simp
qed

theorem group_name_truncated_to_31_witness:
  "cc_group_name_of (JObj [(''Account Name'', JStr ''Acme''), (''Account OID'', JStr ''oid1''),
                           (''Assets'', JArr [JStr ''p1, p2''])]) = Inr (JStr ''Acme_oid1'')
   \<and> (\<exists>r w' users.
        import_group demo_env demo_vision ''pw'' True
          (JObj [(''Account Name'', JStr ''Acme''), (''Account OID'', JStr ''oid1''),
                 (''Assets'', JArr [JStr ''p1, p2''])]) ((), []) =
        (r, (w', CreateGroup (JStr ''Acme_oid1'') (JArr [JStr ''p1, p2'']) True #
                   map (\<lambda>user. AddUser user (JStr ''Acme_oid1'') ''pw'' True) users)))"
proof -
  let ?entry = "JObj [(''Account Name'', JStr ''Acme''), (''Account OID'', JStr ''oid1''),
                      (''Assets'', JArr [JStr ''p1, p2''])]"
  have a: "getitem ?entry ''Account Name'' = Inr (JStr ''Acme'')" by simp
  have b: "getitem ?entry ''Account OID'' = Inr (JStr ''oid1'')" by simp
  have c: "getitem ?entry ''Assets'' = Inr (JArr [JStr ''p1, p2''])" by simp
  from group_name_truncated_to_31 [OF a b c, where E = demo_env and vision = demo_vision
      and pw = "''pw''" and dry = True and w = "()" and log = "[]"]
  show ?thesis by simp
qed

text \<open>
  When the line about a refused group is printed without an exception, the refusal is
  isolated: the only call made for the entry is the group creation, and the run goes on
  with the loop over the entries after it, from the state the printing left.
\<close>

lemma group_failure_isolated_when_printed:
  assumes "vision_login vision w0 = (Inr ok, w1)" and "truthy ok"
    and "smap (import_group E vision pw dry) before (w1, log @ [Login]) = (Inr finished, (w2, log2))"
    and "cc_group_name_of entry = Inr nm" and "getitem entry ''Assets'' = Inr assets"
    and "vision_create_cc_group vision nm assets dry w2 = (Inr created, w3)"
    and "\<not> truthy created"
    and "print E ''couldn't create group '' nm
           ('', skipping it completly. '' @ [CHR 0x0A] @ '' please check the logs and try again.'') w3 =
         (Inr (), w4)"
  shows "import_group E vision pw dry entry (w2, log2) =
           (Inr (), (w4, log2 @ [CreateGroup nm assets dry]))
       \<and> import_mssp_config E vision (JArr (before @ entry # after)) pw dry (w0, log) =
           (case smap (import_group E vision pw dry) after (w4, log2 @ [CreateGroup nm assets dry]) of
              (r, s) \<Rightarrow> (case r of Inl e \<Rightarrow> Inl e | Inr _ \<Rightarrow> Inr (), s))"
proof
  show g: "import_group E vision pw dry entry (w2, log2) =
           (Inr (), (w4, log2 @ [CreateGroup nm assets dry]))"
    using assms(4-8) by (rule import_group_refused)
  have l: "issue Login (vision_login vision) (w0, log) = (Inr ok, (w1, log @ [Login]))"
    using assms(1) by (simp add: issue_apply)
  have "smap (import_group E vision pw dry) (before @ entry # after) (w1, log @ [Login]) =
          (case smap (import_group E vision pw dry) after (w4, log2 @ [CreateGroup nm assets dry]) of
             (Inl e, s) \<Rightarrow> (Inl e, s)
           | (Inr rs, s) \<Rightarrow> (Inr (finished @ () # rs), s))"
    using assms(3) g
    by (simp add: smap_append sbind_def pure_def split: prod.splits sum.splits)
  then show "import_mssp_config E vision (JArr (before @ entry # after)) pw dry (w0, log) =
           (case smap (import_group E vision pw dry) after (w4, log2 @ [CreateGroup nm assets dry]) of
              (r, s) \<Rightarrow> (case r of Inl e \<Rightarrow> Inl e | Inr _ \<Rightarrow> Inr (), s))"
    using l assms(2)
    by (simp add: import_mssp_config_def sbind_apply sbind_def pure_def split: prod.splits sum.splits)
qed

text \<open>
  Claim C4 says that a refused group is never fatal to the run: the users of the entry
  are skipped and every later entry is still processed. The script does skip the users,
  but it then prints a line that holds the group name, outside any handler. With a
  standard output that encodes ASCII only and the account name \<open>Caf\<close> followed by code
  233, the printing raises \<open>UnicodeEncodeError\<close> right after the first group creation
  and the run ends there: the group of the second entry is never requested. With an
  output that takes the text, the same client and document reach the second entry.
\<close>

theorem refused_group_print_ends_run:
  "import_mssp_config ascii_stdout_env refusing_groups_vision cafe_document ''pw'' False ((), []) =
     (Inl UnicodeEncodeError,
      ((), [Login, CreateGroup (JStr (''Caf'' @ [CHR 0xE9] @ ''_oid1'')) (JArr []) False]))
   \<and> import_mssp_config demo_env refusing_groups_vision cafe_document ''pw'' False ((), []) =
     (Inr (),
      ((), [Login, CreateGroup (JStr (''Caf'' @ [CHR 0xE9] @ ''_oid1'')) (JArr []) False,
            CreateGroup (JStr ''Other_oid2'') (JArr []) False]))"
  by (simp add: import_mssp_config_def import_group_def cc_group_name_of_def cafe_document_def
      refusing_groups_vision_def demo_vision_def ascii_stdout_env_def demo_env_def
      issue_def on_world_def sbind_def pure_def)

section \<open>Properties of the user mapping\<close>

lemma as_strs_map [simp]: "as_strs (map JStr ss) = Inr ss"
  by (induction ss) simp_all

lemma join_strings [simp]: "join sep (JArr (map JStr ss)) = Inr (JStr (join_strs sep ss))"
  by (simp add: join_def)

lemma user_info_record:
  assumes "dict_get (JObj u) ''account'' (JObj []) = Inr (JObj account)"
    and "dict_get (JObj u) ''roles'' (JObj []) = Inr (JObj roles)"
    and "dict_get (JObj roles) ''currentAccount'' (JArr []) = Inr (JArr (map JStr current))"
    and "dict_get (JObj u) ''auth_meta'' (JObj []) = Inr (JObj auth_meta)"
    and "dict_get (JObj auth_meta) ''allowed_ip_list'' (JArr []) = Inr (JArr allowed_ips)"
  shows "user_info (JObj u) =
    Inr (JObj
     [(''Name'', case map_of u ''name'' of Some v \<Rightarrow> v | None \<Rightarrow> JNull),
      (''Username'', case map_of u ''username'' of Some v \<Rightarrow> v | None \<Rightarrow> JStr ''N/A''),
      (''Role'', case map_of u ''role'' of Some v \<Rightarrow> v | None \<Rightarrow> JStr ''N/A''),
      (''Email'', case map_of u ''email'' of Some v \<Rightarrow> v | None \<Rightarrow> JNull),
      (''Auth Type'', case map_of u ''auth_type'' of Some v \<Rightarrow> v | None \<Rightarrow> JNull),
      (''Account OID'', case map_of account ''_oid'' of Some v \<Rightarrow> v | None \<Rightarrow> JStr ''N/A''),
      (''Role (Current)'', JStr (if current = [] then ''None'' else join_strs '', '' current)),
      (''New Role'',
         if ''userAdmin'' \<in> set current then JStr ''MSSP_PORTAL_ADMIN''
         else if ''basicUser'' \<in> set current then JStr ''MSSP_PORTAL_USER''
         else if ''dashboardUser'' \<in> set current \<or> ''userViewer'' \<in> set current
              then JStr ''MSSP_PORTAL_VIEWER''
         else JNull),
      (''Allowed IP Address'', case allowed_ips of [] \<Rightarrow> JStr [] | first_ip # others \<Rightarrow> first_ip),
      (''Notes'', case map_of u ''notes'' of Some v \<Rightarrow> v | None \<Rightarrow> JStr [])])"
proof -
  have a: "dict_get (JObj u) ''account'' (JObj []) = Inr (JObj account)" by fact
  have r: "dict_get (JObj u) ''roles'' (JObj []) = Inr (JObj roles)" by fact
  have c: "dict_get (JObj roles) ''currentAccount'' (JArr []) = Inr (JArr (map JStr current))" by fact
  have m: "dict_get (JObj u) ''auth_meta'' (JObj []) = Inr (JObj auth_meta)" by fact
  have i: "dict_get (JObj auth_meta) ''allowed_ip_list'' (JArr []) = Inr (JArr allowed_ips)" by fact
  have first: "(if truthy (JArr allowed_ips) then getitem0 (JArr allowed_ips) else Inr (JStr [])) =
      Inr (case allowed_ips of [] \<Rightarrow> JStr [] | first_ip # others \<Rightarrow> first_ip)"
    by (cases allowed_ips) simp_all
  have rs: "(if truthy (JArr (map JStr current)) then join '', '' (JArr (map JStr current))
             else Inr (JStr ''None'')) =
      Inr (JStr (if current = [] then ''None'' else join_strs '', '' current))"
    by simp
  have nr: "select_new_role (JArr (map JStr current)) =
      Inr (if ''userAdmin'' \<in> set current then JStr ''MSSP_PORTAL_ADMIN''
         else if ''basicUser'' \<in> set current then JStr ''MSSP_PORTAL_USER''
         else if ''dashboardUser'' \<in> set current \<or> ''userViewer'' \<in> set current
              then JStr ''MSSP_PORTAL_VIEWER''
         else JNull)"
    by (auto simp add: select_new_role_list)
  have others:
    "dict_get (JObj u) ''username'' (JStr ''N/A'') =
       Inr (case map_of u ''username'' of Some v \<Rightarrow> v | None \<Rightarrow> JStr ''N/A'')"
    "dict_get (JObj u) ''notes'' (JStr []) =
       Inr (case map_of u ''notes'' of Some v \<Rightarrow> v | None \<Rightarrow> JStr [])"
    "dict_get (JObj u) ''name'' JNull =
       Inr (case map_of u ''name'' of Some v \<Rightarrow> v | None \<Rightarrow> JNull)"
    "dict_get (JObj u) ''role'' (JStr ''N/A'') =
       Inr (case map_of u ''role'' of Some v \<Rightarrow> v | None \<Rightarrow> JStr ''N/A'')"
    "dict_get (JObj u) ''email'' JNull =
       Inr (case map_of u ''email'' of Some v \<Rightarrow> v | None \<Rightarrow> JNull)"
    "dict_get (JObj u) ''auth_type'' JNull =
       Inr (case map_of u ''auth_type'' of Some v \<Rightarrow> v | None \<Rightarrow> JNull)"
    by simp_all
  have oid: "dict_get (JObj account) ''_oid'' (JStr ''N/A'') =
      Inr (case map_of account ''_oid'' of Some v \<Rightarrow> v | None \<Rightarrow> JStr ''N/A'')"
    by simp
  show ?thesis
    by (simp only: user_info_def a r c m i first rs nr oid others ebind_simps)
qed

text \<open>
  Claim C3. Let a user record be a dictionary whose \<open>account\<close>, \<open>roles\<close> and
  \<open>auth_meta\<close> are dictionaries or missing, whose current-account roles are a list of
  strings or missing, and whose allowed-IP list is a list or missing. Then
  \<open>build_users_info\<close> on the list of that one user returns one record in which: a
  missing name or email is \<^verbatim>\<open>None\<close>; a missing username is \<open>N/A\<close>; a missing account
  OID is \<open>N/A\<close>; the displayed roles are \<open>None\<close> for no role and otherwise the roles
  joined by a comma and a space; the allowed IP is the empty string when the list is
  missing or empty, and otherwise its first entry alone.
\<close>

theorem build_users_info_defaults:
  assumes "dict_get (JObj u) ''account'' (JObj []) = Inr (JObj account)"
    and "dict_get (JObj u) ''roles'' (JObj []) = Inr (JObj roles)"
    and "dict_get (JObj roles) ''currentAccount'' (JArr []) = Inr (JArr (map JStr current))"
    and "dict_get (JObj u) ''auth_meta'' (JObj []) = Inr (JObj auth_meta)"
    and "dict_get (JObj auth_meta) ''allowed_ip_list'' (JArr []) = Inr (JArr allowed_ips)"
  shows "build_users_info (JArr [JObj u]) =
    Inr (JArr [JObj
     [(''Name'', case map_of u ''name'' of Some v \<Rightarrow> v | None \<Rightarrow> JNull),
      (''Username'', case map_of u ''username'' of Some v \<Rightarrow> v | None \<Rightarrow> JStr ''N/A''),
      (''Role'', case map_of u ''role'' of Some v \<Rightarrow> v | None \<Rightarrow> JStr ''N/A''),
      (''Email'', case map_of u ''email'' of Some v \<Rightarrow> v | None \<Rightarrow> JNull),
      (''Auth Type'', case map_of u ''auth_type'' of Some v \<Rightarrow> v | None \<Rightarrow> JNull),
      (''Account OID'', case map_of account ''_oid'' of Some v \<Rightarrow> v | None \<Rightarrow> JStr ''N/A''),
      (''Role (Current)'', JStr (if current = [] then ''None'' else join_strs '', '' current)),
      (''New Role'',
         if ''userAdmin'' \<in> set current then JStr ''MSSP_PORTAL_ADMIN''
         else if ''basicUser'' \<in> set current then JStr ''MSSP_PORTAL_USER''
         else if ''dashboardUser'' \<in> set current \<or> ''userViewer'' \<in> set current
              then JStr ''MSSP_PORTAL_VIEWER''
         else JNull),
      (''Allowed IP Address'', case allowed_ips of [] \<Rightarrow> JStr [] | first_ip # others \<Rightarrow> first_ip),
      (''Notes'', case map_of u ''notes'' of Some v \<Rightarrow> v | None \<Rightarrow> JStr [])]])"
  using user_info_record [OF assms] by (simp add: build_users_info_def)

theorem build_users_info_defaults_witness:
  "build_users_info (JArr [JObj []]) =
     Inr (JArr [JObj
       [(''Name'', JNull), (''Username'', JStr ''N/A''), (''Role'', JStr ''N/A''),
        (''Email'', JNull), (''Auth Type'', JNull), (''Account OID'', JStr ''N/A''),
        (''Role (Current)'', JStr ''None''), (''New Role'', JNull),
        (''Allowed IP Address'', JStr []), (''Notes'', JStr [])]])
   \<and> build_users_info
       (JArr [JObj [(''username'', JStr ''carol''), (''account'', JObj [(''_oid'', JStr ''oid7'')]),
                    (''roles'', JObj [(''currentAccount'', JArr [JStr ''userViewer'', JStr ''basicUser''])]),
                    (''auth_meta'',
                     JObj [(''allowed_ip_list'', JArr [JStr ''10.0.0.1'', JStr ''10.0.0.2''])])]]) =
     Inr (JArr [JObj
       [(''Name'', JNull), (''Username'', JStr ''carol''), (''Role'', JStr ''N/A''),
        (''Email'', JNull), (''Auth Type'', JNull), (''Account OID'', JStr ''oid7''),
        (''Role (Current)'', JStr ''userViewer, basicUser''),
        (''New Role'', JStr ''MSSP_PORTAL_USER''),
        (''Allowed IP Address'', JStr ''10.0.0.1''), (''Notes'', JStr [])]])"
proof -
  let ?u = "[(''username'', JStr ''carol''), (''account'', JObj [(''_oid'', JStr ''oid7'')]),
             (''roles'', JObj [(''currentAccount'', JArr [JStr ''userViewer'', JStr ''basicUser''])]),
             (''auth_meta'',
              JObj [(''allowed_ip_list'', JArr [JStr ''10.0.0.1'', JStr ''10.0.0.2''])])]"
  have a0: "dict_get (JObj []) ''account'' (JObj []) = Inr (JObj [])" by simp
  have r0: "dict_get (JObj []) ''roles'' (JObj []) = Inr (JObj [])" by simp
  have m0: "dict_get (JObj []) ''auth_meta'' (JObj []) = Inr (JObj [])" by simp
  have c0: "dict_get (JObj []) ''currentAccount'' (JArr []) = Inr (JArr (map JStr []))" by simp
  have i0: "dict_get (JObj []) ''allowed_ip_list'' (JArr []) = Inr (JArr [])" by simp
  have a1: "dict_get (JObj ?u) ''account'' (JObj []) = Inr (JObj [(''_oid'', JStr ''oid7'')])"
    by simp
  have r1: "dict_get (JObj ?u) ''roles'' (JObj []) =
      Inr (JObj [(''currentAccount'', JArr [JStr ''userViewer'', JStr ''basicUser''])])"
    by simp
  have c1: "dict_get (JObj [(''currentAccount'', JArr [JStr ''userViewer'', JStr ''basicUser''])])
      ''currentAccount'' (JArr []) = Inr (JArr (map JStr [''userViewer'', ''basicUser'']))"
    by simp
  have m1: "dict_get (JObj ?u) ''auth_meta'' (JObj []) =
      Inr (JObj [(''allowed_ip_list'', JArr [JStr ''10.0.0.1'', JStr ''10.0.0.2''])])"
    by simp
  have i1: "dict_get (JObj [(''allowed_ip_list'', JArr [JStr ''10.0.0.1'', JStr ''10.0.0.2''])])
      ''allowed_ip_list'' (JArr []) = Inr (JArr [JStr ''10.0.0.1'', JStr ''10.0.0.2''])"
    by simp
  from build_users_info_defaults [OF a0 r0 c0 m0 i0]
    build_users_info_defaults [OF a1 r1 c1 m1 i1]
  show ?thesis by simp
qed

section \<open>Properties of the export\<close>

lemma sbind_InrE:
  assumes "sbind m f w = (Inr y, w')"
  obtains x w1 where "m w = (Inr x, w1)" and "f x w1 = (Inr y, w')"
  using assms by (auto simp add: sbind_def split: prod.splits sum.splits)

lemma pure_InrE:
  assumes "pure m w = (Inr y, w')"
  obtains "m = Inr y" and "w' = w"
  using assms by (auto simp add: pure_def)

lemma smap_list_all2:
  "smap f xs w = (Inr ys, w') \<Longrightarrow> list_all2 (\<lambda>x y. \<exists>wa wb. f x wa = (Inr y, wb)) xs ys"
proof (induction xs arbitrary: w w' ys)
  case Nil
  then show ?case by (simp add: pure_def)
next
  case (Cons x xs)
  from Cons.prems obtain y w1 where fx: "f x w = (Inr y, w1)"
    and rest: "sbind (smap f xs) (\<lambda>ys. pure (Inr (y # ys))) w1 = (Inr ys, w')"
    by (auto elim: sbind_InrE)
  from rest obtain zs w2 where s: "smap f xs w1 = (Inr zs, w2)" and p: "pure (Inr (y # zs)) w2 = (Inr ys, w')"
    by (auto elim: sbind_InrE)
  from p have ys: "ys = y # zs" by (auto simp add: pure_def)
  from Cons.IH [OF s] fx show ?case unfolding ys by auto
qed

lemma build_users_info_empty: "build_users_info (JArr []) = Inr (JArr [])"
  by (simp add: build_users_info_def)

lemma account_details_entry:
  assumes "account_details E session_id mssp_address account w = (Inr entry, w')"
  shows "entry_of E session_id mssp_address account entry"
proof -
  from assms obtain oid name type_tag assets fetched users clean_assets clean_users wa wb
    where oid: "ebind (dict_get account ''_id'' (JObj [])) (\<lambda>i. dict_get i ''_oid'' (JStr ''N/A'')) = Inr oid"
      and name: "dict_get account ''name'' (JStr ''N/A'') = Inr name"
      and type_tag: "dict_get account ''_type'' (JStr ''N/A'') = Inr type_tag"
      and fetched: "fetch_users_for_account E session_id oid mssp_address wa = (Inr fetched, wb)"
      and users: "filter_users_by_role fetched ''user'' = Inr users"
      and clean: "build_users_info users = Inr clean_users"
      and entry: "entry = JObj [(''Account Name'', name), (''Type'', type_tag), (''Account OID'', oid),
                      (''Assets'', clean_assets), (''Users'', clean_users)]"
    unfolding account_details_def
    by (elim sbind_InrE pure_InrE) auto
  from users clean have both: "ebind (filter_users_by_role fetched ''user'') build_users_info = Inr clean_users"
    by simp
  from users clean have none: "filter_users_by_role fetched ''user'' = Inr (JArr []) \<longrightarrow> clean_users = JArr []"
    by (auto simp add: build_users_info_empty)
  show ?thesis
    unfolding entry_of_def
    using entry name type_tag oid fetched both none by blast
qed


lemma filter_accounts_by_type_list:
  assumes "ebind (filter_accounts_by_type fetched t) iterate = Inr accounts"
  shows "filter_accounts_by_type fetched t = Inr (JArr accounts)
       \<and> (\<exists>elems. iterate fetched = Inr elems \<and> accounts = filter (has_field ''_type'' t) elems)"
proof (cases "iterate fetched")
  case (Inl e)
  with assms show ?thesis by (simp add: filter_accounts_by_type_def)
next
  case (Inr elems)
  with assms show ?thesis
    by (simp add: filter_accounts_by_type_def filter_err_field split: if_splits)
qed

text \<open>
  Claim C6. Whenever \<open>build_structured_export\<close> returns a document, the document has
  exactly one entry for each account of the listing that passes the filter for the type
  \<open>CustomerAccount\<close>, in the order of the listing: the entries correspond one to one,
  position by position, to the filtered accounts. An account none of whose listed users
  has the role \<open>user\<close> still has its entry, with the empty list of users. (When a
  call of the transport or a malformed record raises, the run ends with the exception
  and there is no document.)
\<close>

theorem one_entry_per_customer_account:
  assumes "build_structured_export E session_id mssp_address w = (Inr doc, w')"
  shows "\<exists>fetched w1 elems accounts entries.
           fetch_all_accounts E session_id mssp_address w = (Inr fetched, w1)
         \<and> iterate fetched = Inr elems
         \<and> accounts = filter (has_field ''_type'' ''CustomerAccount'') elems
         \<and> filter_accounts_by_type fetched ''CustomerAccount'' = Inr (JArr accounts)
         \<and> doc = JArr entries
         \<and> length entries = length accounts
         \<and> list_all2 (entry_of E session_id mssp_address) accounts entries"
proof -
  from assms obtain fetched w1 accounts w2 entries
    where f: "fetch_all_accounts E session_id mssp_address w = (Inr fetched, w1)"
      and a: "ebind (filter_accounts_by_type fetched ''CustomerAccount'') iterate = Inr accounts"
      and s: "smap (account_details E session_id mssp_address) accounts w1 = (Inr entries, w2)"
      and d: "doc = JArr entries"
    unfolding build_structured_export_def
    by (elim sbind_InrE pure_InrE) auto
  from filter_accounts_by_type_list [OF a] obtain elems
    where fa: "filter_accounts_by_type fetched ''CustomerAccount'' = Inr (JArr accounts)"
      and it: "iterate fetched = Inr elems"
      and ac: "accounts = filter (has_field ''_type'' ''CustomerAccount'') elems"
    by blast
  from smap_list_all2 [OF s]
  have "list_all2 (\<lambda>account entry. \<exists>wa wb.
          account_details E session_id mssp_address account wa = (Inr entry, wb)) accounts entries" .
  then have l: "list_all2 (entry_of E session_id mssp_address) accounts entries"
    by (rule list_all2_mono) (auto intro: account_details_entry)
  then have n: "length entries = length accounts"
    by (simp add: list_all2_lengthD)
  from f it ac fa d n l show ?thesis by blast
qed

lemma demo_export:
  "build_structured_export demo_env ''s1'' ''portal'' () =
    (Inr (JArr
        [JObj
          [(''Account Name'', JStr ''Acme''),
           (''Type'', JStr ''CustomerAccount''),
           (''Account OID'', JStr ''oid1''),
           (''Assets'', JArr [JStr ''p1, p2'']),
           (''Users'',
            JArr
             [JObj
               [(''Name'', JStr ''Alice''), (''Username'', JStr ''alice''),
                (''Role'', JStr ''user''),
                (''Email'', JStr ''alice@acme.example''),
                (''Auth Type'', JNull), (''Account OID'', JStr ''oid1''),
                (''Role (Current)'', JStr ''basicUser''),
                (''New Role'', JStr ''MSSP_PORTAL_USER''),
                (''Allowed IP Address'', JStr []), (''Notes'', JStr [])]])],
         JObj
          [(''Account Name'', JStr ''Empty Co''),
           (''Type'', JStr ''CustomerAccount''),
           (''Account OID'', JStr ''oid3''), (''Assets'', JArr []),
           (''Users'', JArr [])]]),
  ())"
  by (simp add: build_structured_export_def fetch_all_accounts_def demo_env_def ok_response_def
      reply_of_def sbind_def pure_def demo_accounts_def filter_accounts_by_type_def
      account_details_def fetch_assets_for_account_def fetch_users_for_account_def
      demo_users_def filter_users_by_role_def build_assets_info_def build_users_info_def
      user_info_def join_def select_new_role_list)

lemma demo_export_document:
  "build_structured_export demo_env ''s1'' ''portal'' () = (Inr demo_exported, ())"
  using demo_export by (simp add: demo_exported_def)

theorem one_entry_per_customer_account_witness:
  "build_structured_export demo_env ''s1'' ''portal'' () =
     (Inr (JArr
        [JObj
          [(''Account Name'', JStr ''Acme''),
           (''Type'', JStr ''CustomerAccount''),
           (''Account OID'', JStr ''oid1''),
           (''Assets'', JArr [JStr ''p1, p2'']),
           (''Users'',
            JArr
             [JObj
               [(''Name'', JStr ''Alice''), (''Username'', JStr ''alice''),
                (''Role'', JStr ''user''),
                (''Email'', JStr ''alice@acme.example''),
                (''Auth Type'', JNull), (''Account OID'', JStr ''oid1''),
                (''Role (Current)'', JStr ''basicUser''),
                (''New Role'', JStr ''MSSP_PORTAL_USER''),
                (''Allowed IP Address'', JStr []), (''Notes'', JStr [])]])],
         JObj
          [(''Account Name'', JStr ''Empty Co''),
           (''Type'', JStr ''CustomerAccount''),
           (''Account OID'', JStr ''oid3''), (''Assets'', JArr []),
           (''Users'', JArr [])]]), ())
   \<and> entry_of demo_env ''s1'' ''portal''
         (JObj [(''_id'', JObj [(''_oid'', JStr ''oid3'')]), (''name'', JStr ''Empty Co''),
                (''_type'', JStr ''CustomerAccount'')])
         (JObj
          [(''Account Name'', JStr ''Empty Co''),
           (''Type'', JStr ''CustomerAccount''),
           (''Account OID'', JStr ''oid3''), (''Assets'', JArr []),
           (''Users'', JArr [])])"
proof -
  have f: "fetch_all_accounts demo_env ''s1'' ''portal'' () = (Inr demo_accounts, ())"
    by (simp add: fetch_all_accounts_def demo_env_def ok_response_def reply_of_def sbind_def pure_def)
  from one_entry_per_customer_account [OF demo_export]
  obtain fetched w1 elems accounts entries
    where "fetch_all_accounts demo_env ''s1'' ''portal'' () = (Inr fetched, w1)"
      and "iterate fetched = Inr elems"
      and "accounts = filter (has_field ''_type'' ''CustomerAccount'') elems"
      and "JArr
        [JObj
          [(''Account Name'', JStr ''Acme''),
           (''Type'', JStr ''CustomerAccount''),
           (''Account OID'', JStr ''oid1''),
           (''Assets'', JArr [JStr ''p1, p2'']),
           (''Users'',
            JArr
             [JObj
               [(''Name'', JStr ''Alice''), (''Username'', JStr ''alice''),
                (''Role'', JStr ''user''),
                (''Email'', JStr ''alice@acme.example''),
                (''Auth Type'', JNull), (''Account OID'', JStr ''oid1''),
                (''Role (Current)'', JStr ''basicUser''),
                (''New Role'', JStr ''MSSP_PORTAL_USER''),
                (''Allowed IP Address'', JStr []), (''Notes'', JStr [])]])],
         JObj
          [(''Account Name'', JStr ''Empty Co''),
           (''Type'', JStr ''CustomerAccount''),
           (''Account OID'', JStr ''oid3''), (''Assets'', JArr []),
           (''Users'', JArr [])]] = JArr entries"
      and "list_all2 (entry_of demo_env ''s1'' ''portal'') accounts entries"
    by blast
  with f have "entry_of demo_env ''s1'' ''portal''
         (JObj [(''_id'', JObj [(''_oid'', JStr ''oid3'')]), (''name'', JStr ''Empty Co''),
                (''_type'', JStr ''CustomerAccount'')])
         (JObj
          [(''Account Name'', JStr ''Empty Co''),
           (''Type'', JStr ''CustomerAccount''),
           (''Account OID'', JStr ''oid3''), (''Assets'', JArr []),
           (''Users'', JArr [])])"
    by (auto simp add: demo_accounts_def)
  with demo_export show ?thesis by simp
qed

section \<open>Properties of the command line\<close>

lemma login_session_nonempty:
  assumes "login E url username password w = (Inr (Some session_id), w1)"
  shows "session_id \<noteq> []"
  using assms
  by (auto simp add: login_def split: prod.splits sum.splits if_splits option.splits)

lemma on_world_log: "snd (snd (on_world m (w, log))) = log"
  by (simp add: on_world_def split: prod.splits)

lemma import_logs_login:
  "Login \<in> set (snd (snd (import_mssp_config E vision config pw dry (w, log))))"
proof -
  obtain r w1 where l: "vision_login vision w = (r, w1)" by (cases "vision_login vision w")
  then have i: "issue Login (vision_login vision) (w, log) = (r, (w1, log @ [Login]))"
    by (simp add: issue_apply)
  show ?thesis
  proof (cases r)
    case (Inl e)
    with i show ?thesis by (simp add: import_mssp_config_def sbind_apply)
  next
    case (Inr ok)
    show ?thesis
    proof (cases "truthy ok \<and> (\<exists>groups. iterate config = Inr groups)")
      case False
      with i Inr show ?thesis
        by (cases "iterate config") (auto simp add: import_mssp_config_def sbind_apply pure_def)
    next
      case True
      then obtain groups where g: "iterate config = Inr groups" and t: "truthy ok" by blast
      have k: "Login \<in> set (snd (snd (smap (import_group E vision pw dry) xs (w', lg))))"
        if "Login \<in> set lg" for xs w' lg
        using that
      proof (induction xs arbitrary: w' lg)
        case Nil
        then show ?case by (simp add: pure_def)
      next
        case (Cons x xs)
        obtain r1 w2 lg2 where st: "import_group E vision pw dry x (w', lg) = (r1, (w2, lg2))"
          by (cases "import_group E vision pw dry x (w', lg)") auto
        have "\<exists>more. lg2 = lg @ more"
        proof (cases "ebind (cc_group_name_of x) (\<lambda>nm. ebind (getitem x ''Assets'') (\<lambda>a. Inr (nm, a)))")
          case (Inl e)
          then have "import_group E vision pw dry x (w', lg) = (Inl e, (w', lg))"
            by (cases "cc_group_name_of x"; cases "getitem x ''Assets''")
              (simp_all add: import_group_def sbind_def pure_def)
          with st show ?thesis by simp
        next
          case (Inr na)
          then obtain nm a where n: "cc_group_name_of x = Inr nm" and a: "getitem x ''Assets'' = Inr a"
            by (cases "cc_group_name_of x"; cases "getitem x ''Assets''") auto
          from import_group_calls [OF n a, where E = E and vision = vision and pw = pw
              and dry = dry and w = w' and log = lg] st
          show ?thesis by auto
        qed
        then obtain more where lg2: "lg2 = lg @ more" ..
        with Cons.prems have in2: "Login \<in> set lg2" by simp
        show ?case
        proof (cases r1)
          case (Inl e)
          with st in2 show ?thesis by (simp add: sbind_apply)
        next
          case (Inr u)
          from Cons.IH [OF in2, of w2] st Inr show ?thesis
            by (auto simp add: sbind_def pure_def split: prod.splits sum.splits)
        qed
      qed
      have "Login \<in> set (snd (snd (smap (import_group E vision pw dry) groups (w1, log @ [Login]))))"
        by (rule k) simp
      with i Inr g t show ?thesis
        by (auto simp add: import_mssp_config_def sbind_apply sbind_def pure_def
            split: prod.splits sum.splits)
    qed
  qed
qed

lemma demo_login:
  "login demo_env ''https://portal/api/auth/'' ''admin'' ''secret'' () = (Inr (Some ''s1''), ())"
  by (simp add: login_def demo_env_def)

text \<open>
  Claim C5 fails as it is stated. In this live run with \<^verbatim>\<open>--export-file\<close> the source
  login succeeds, the document is exported and saved, every destination credential is
  given, and yet no call is made on the destination client, not even the login that
  starts every import: the script imports only under \<^verbatim>\<open>if not args.export_file\<close>.
\<close>

theorem export_file_run_skips_import:
  "\<not> arg_import_from_file live_args_export
   \<and> login demo_env ''https://portal/api/auth/'' ''admin'' ''secret'' () = (Inr (Some ''s1''), ())
   \<and> build_structured_export demo_env ''s1'' ''portal'' () = (Inr demo_exported, ())
   \<and> given (arg_cc_address live_args_export)
   \<and> given (arg_cc_username live_args_export)
   \<and> given (arg_cc_password live_args_export)
   \<and> arg_export_file live_args_export = Some ''snapshot''
   \<and> main demo_env live_args_export ((), []) = (Inr (), ((), []))
   \<and> Login \<notin> set (snd (snd (main demo_env live_args_export ((), []))))
   \<and> Login \<in> set (snd (snd (import_mssp_config demo_env demo_vision demo_exported ''P@ssw0rd1!'' False ((), []))))"
proof -
  have l: "on_world (login demo_env ''https://portal/api/auth/'' ''admin'' ''secret'') ((), []) =
             (Inr (Some ''s1''), ((), []))"
    using demo_login by (rule on_world_apply)
  have b: "on_world (build_structured_export demo_env ''s1'' ''portal'') ((), []) =
             (Inr demo_exported, ((), []))"
    using demo_export_document by (rule on_world_apply)
  have s: "on_world (save_data_to_json_file demo_env demo_exported ''snapshot'') ((), []) =
             (Inr (), ((), []))"
    by (simp add: on_world_def save_data_to_json_file_def demo_env_def sbind_def)
  have v: "on_world (Vision demo_env ''cc'' ''radware'' ''secret2'') ((), []) =
             (Inr demo_vision, ((), []))"
    by (simp add: on_world_def demo_env_def)
  have m: "main demo_env live_args_export ((), []) = (Inr (), ((), []))"
    by (simp add: main_def live_args_export_def live_args_def given_def sbind_def pure_def
        l b s v)
  show ?thesis
    unfolding m
    by (simp add: live_args_export_def live_args_def given_def demo_login demo_export_document
        import_logs_login)
qed

text \<open>
  Claim C5, amended. In a live run with a successful source login, a successful export
  and every destination credential given, the exported document is handed to
  \<open>import_mssp_config\<close> (with the given or the default password and the dry-run flag)
  exactly when \<^verbatim>\<open>--export-file\<close> is not given. When \<^verbatim>\<open>--export-file\<close> is given the run
  issues no login, no group creation and no user creation on the destination client.
\<close>

theorem live_run_imports_unless_export_file:
  assumes "\<not> arg_import_from_file a"
    and "given (arg_mssp_address a)" and "given (arg_mssp_username a)" and "given (arg_mssp_password a)"
    and "login E (''https://'' @ the (arg_mssp_address a) @ ''/api/auth/'')
           (the (arg_mssp_username a)) (the (arg_mssp_password a)) w = (Inr (Some session_id), w1)"
    and "build_structured_export E session_id (the (arg_mssp_address a)) w1 = (Inr doc, w2)"
    and "given (arg_cc_address a)" and "given (arg_cc_username a)" and "given (arg_cc_password a)"
  shows "(\<not> given (arg_export_file a) \<longrightarrow>
            main E a (w, log) =
              (case Vision E (the (arg_cc_address a)) (the (arg_cc_username a))
                      (the (arg_cc_password a)) w2 of
                 (Inl e, w3) \<Rightarrow> (Inl e, (w3, log))
               | (Inr vision, w3) \<Rightarrow>
                   import_mssp_config E vision doc
                     (if given (arg_initial_user_password a)
                      then the (arg_initial_user_password a) else ''P@ssw0rd1!'')
                     (arg_dry_run a) (w3, log)))
       \<and> (given (arg_export_file a) \<longrightarrow> snd (snd (main E a (w, log))) = log)"
proof -
  let ?login = "login E (''https://'' @ the (arg_mssp_address a) @ ''/api/auth/'')
           (the (arg_mssp_username a)) (the (arg_mssp_password a))"
  let ?V = "Vision E (the (arg_cc_address a)) (the (arg_cc_username a)) (the (arg_cc_password a))"
  have sid: "given (Some session_id)"
    using login_session_nonempty [OF assms(5)] by (simp add: given_def)
  have l: "on_world ?login (w, log) = (Inr (Some session_id), (w1, log))"
    using assms(5) by (rule on_world_apply)
  have b: "on_world (build_structured_export E session_id (the (arg_mssp_address a))) (w1, log)
             = (Inr doc, (w2, log))"
    using assms(6) by (rule on_world_apply)
  show ?thesis
  proof (intro conjI impI)
    assume no: "\<not> given (arg_export_file a)"
    obtain rv w3 where v: "?V w2 = (rv, w3)" by (cases "?V w2")
    then have vo: "on_world ?V (w2, log) = (rv, (w3, log))" by (rule on_world_apply)
    have obtain_doc: "sbind (on_world ?login) (\<lambda>session_id.
              if given session_id then
                sbind (on_world (build_structured_export E (the session_id) (the (arg_mssp_address a))))
                  (\<lambda>structured_export.
                sbind (if given (arg_export_file a)
                       then on_world (save_data_to_json_file E structured_export (the (arg_export_file a)))
                       else pure (Inr ())) (\<lambda>_.
                  pure (Inr structured_export)))
              else pure (Inl (SystemExit 1))) (w, log) = (Inr doc, (w2, log))"
      using l sid b no by (simp add: sbind_apply pure_def)
    show "main E a (w, log) =
              (case ?V w2 of
                 (Inl e, w3) \<Rightarrow> (Inl e, (w3, log))
               | (Inr vision, w3) \<Rightarrow>
                   import_mssp_config E vision doc
                     (if given (arg_initial_user_password a)
                      then the (arg_initial_user_password a) else ''P@ssw0rd1!'')
                     (arg_dry_run a) (w3, log))"
      using assms(1-4,7-9) no obtain_doc v vo
      by (cases rv) (simp_all add: main_def sbind_apply)
  next
    assume yes: "given (arg_export_file a)"
    let ?save = "save_data_to_json_file E doc (the (arg_export_file a))"
    obtain rs w3 where s: "?save w2 = (rs, w3)" by (cases "?save w2")
    then have so: "on_world ?save (w2, log) = (rs, (w3, log))" by (rule on_world_apply)
    show "snd (snd (main E a (w, log))) = log"
    proof (cases rs)
      case (Inl e)
      have "sbind (on_world ?login) (\<lambda>session_id.
              if given session_id then
                sbind (on_world (build_structured_export E (the session_id) (the (arg_mssp_address a))))
                  (\<lambda>structured_export.
                sbind (if given (arg_export_file a)
                       then on_world (save_data_to_json_file E structured_export (the (arg_export_file a)))
                       else pure (Inr ())) (\<lambda>_.
                  pure (Inr structured_export)))
              else pure (Inl (SystemExit 1))) (w, log) = (Inl e, (w3, log))"
        using l sid b yes so Inl by (simp add: sbind_apply)
      then show ?thesis using assms(1-4) by (simp add: main_def sbind_apply)
    next
      case (Inr u)
      have obtain_doc: "sbind (on_world ?login) (\<lambda>session_id.
              if given session_id then
                sbind (on_world (build_structured_export E (the session_id) (the (arg_mssp_address a))))
                  (\<lambda>structured_export.
                sbind (if given (arg_export_file a)
                       then on_world (save_data_to_json_file E structured_export (the (arg_export_file a)))
                       else pure (Inr ())) (\<lambda>_.
                  pure (Inr structured_export)))
              else pure (Inl (SystemExit 1))) (w, log) = (Inr doc, (w3, log))"
        using l sid b yes so Inr by (simp add: sbind_apply pure_def)
      obtain rv w4 where v: "?V w3 = (rv, w4)" by (cases "?V w3")
      then have vo: "on_world ?V (w3, log) = (rv, (w4, log))" by (rule on_world_apply)
      show ?thesis
        using assms(1-4,7-9) yes obtain_doc vo
        by (cases rv) (simp_all add: main_def sbind_apply pure_def)
    qed
  qed
qed

theorem live_run_imports_unless_export_file_witness:
  "main demo_env live_args ((), []) =
     import_mssp_config demo_env demo_vision demo_exported ''P@ssw0rd1!'' False ((), [])
   \<and> snd (snd (main demo_env live_args ((), []))) =
       [Login,
        CreateGroup (JStr ''Acme_oid1'') (JArr [JStr ''p1, p2'']) False,
        CreateGroup (JStr ''Empty Co_oid3'') (JArr []) False]
   \<and> snd (snd (main demo_env live_args_export ((), []))) = []"
proof -
  have a: "\<not> arg_import_from_file live_args" "\<not> arg_import_from_file live_args_export"
    by (simp_all add: live_args_export_def live_args_def)
  have g: "given (arg_mssp_address live_args)" "given (arg_mssp_username live_args)"
    "given (arg_mssp_password live_args)" "given (arg_cc_address live_args)"
    "given (arg_cc_username live_args)" "given (arg_cc_password live_args)"
    by (simp_all add: live_args_def given_def)
  have ge: "given (arg_mssp_address live_args_export)" "given (arg_mssp_username live_args_export)"
    "given (arg_mssp_password live_args_export)" "given (arg_cc_address live_args_export)"
    "given (arg_cc_username live_args_export)" "given (arg_cc_password live_args_export)"
    by (simp_all add: live_args_export_def live_args_def given_def)
  have l: "login demo_env (''https://'' @ the (arg_mssp_address live_args) @ ''/api/auth/'')
             (the (arg_mssp_username live_args)) (the (arg_mssp_password live_args)) () =
           (Inr (Some ''s1''), ())"
    using demo_login by (simp add: live_args_def)
  have le: "login demo_env (''https://'' @ the (arg_mssp_address live_args_export) @ ''/api/auth/'')
             (the (arg_mssp_username live_args_export)) (the (arg_mssp_password live_args_export)) () =
           (Inr (Some ''s1''), ())"
    using demo_login by (simp add: live_args_export_def live_args_def)
  have b: "build_structured_export demo_env ''s1'' (the (arg_mssp_address live_args)) () =
             (Inr demo_exported, ())"
    using demo_export_document by (simp add: live_args_def)
  have be: "build_structured_export demo_env ''s1'' (the (arg_mssp_address live_args_export)) () =
             (Inr demo_exported, ())"
    using demo_export_document by (simp add: live_args_export_def live_args_def)
  have x: "\<not> given (arg_export_file live_args)" "given (arg_export_file live_args_export)"
    "\<not> given (arg_initial_user_password live_args)" "\<not> arg_dry_run live_args"
    by (simp_all add: live_args_export_def live_args_def given_def)
  have v: "Vision demo_env (the (arg_cc_address live_args)) (the (arg_cc_username live_args))
             (the (arg_cc_password live_args)) () = (Inr demo_vision, ())"
    by (simp add: demo_env_def)
  have run: "import_mssp_config demo_env demo_vision demo_exported ''P@ssw0rd1!'' False ((), []) =
      (Inr (), ((),
        [Login,
         CreateGroup (JStr ''Acme_oid1'') (JArr [JStr ''p1, p2'']) False,
         CreateGroup (JStr ''Empty Co_oid3'') (JArr []) False]))"
    by (simp add: import_mssp_config_def demo_exported_def import_group_def cc_group_name_of_def
        demo_vision_def demo_env_def issue_def on_world_def sbind_def pure_def)
  from live_run_imports_unless_export_file [OF a(1) g(1) g(2) g(3) l b g(4) g(5) g(6), where log = "[]"]
    live_run_imports_unless_export_file [OF a(2) ge(1) ge(2) ge(3) le be ge(4) ge(5) ge(6),
      where log = "[]"]
    x v run
  show ?thesis by simp
qed

end
